theory Spec2Isabelle
  imports Complex_Main
begin

section \<open>Python values and exceptions\<close>

text \<open>
  The Astro plugin (\<^verbatim>\<open>astro/configuration.py\<close>, \<^verbatim>\<open>astro/main.py\<close>) reads a JSON
  document into Python values. A value is \<^verbatim>\<open>None\<close>, a \<^verbatim>\<open>bool\<close>, an \<^verbatim>\<open>int\<close>
  (unbounded), a \<^verbatim>\<open>str\<close>, a \<^verbatim>\<open>list\<close> or a \<^verbatim>\<open>dict\<close> with string keys
  (an association list in insertion order; the first pair of a key is its entry). JSON numbers with
  a fraction or an exponent are not modelled. A character is a code point below 256.
\<close>

datatype pyval =
    PNone
  | PBool bool
  | PInt int
  | PStr string
  | PList "pyval list"
  | PDict "(string \<times> pyval) list"

type_synonym pydict = "(string \<times> pyval) list"

text \<open>
  Every exception class the modelled code can raise. The code raises \<^verbatim>\<open>ValueError\<close>
  where the specification speaks of \<^verbatim>\<open>ConfigError\<close> and \<^verbatim>\<open>FormatError\<close>.
\<close>

datatype error =
    ValueError | TypeError | KeyError | AttributeError | OverflowError | RuntimeError
  | RequestException

text \<open>\<^verbatim>\<open>d.get(k)\<close> and \<^verbatim>\<open>d.get(k, default)\<close>.\<close>

definition dict_get :: "pydict \<Rightarrow> string \<Rightarrow> pyval \<Rightarrow> pyval" where
  "dict_get d k dflt = (case map_of d k of None \<Rightarrow> dflt | Some v \<Rightarrow> v)"

text \<open>\<^verbatim>\<open>job[k]\<close>: only a dict can be indexed by a string, and the key must be there.\<close>

definition subscript :: "pyval \<Rightarrow> string \<Rightarrow> error + pyval" where
  "subscript v k =
     (case v of
        PDict d \<Rightarrow> (case map_of d k of None \<Rightarrow> Inl KeyError | Some x \<Rightarrow> Inr x)
      | _ \<Rightarrow> Inl TypeError)"

text \<open>Truth value of a Python value, as \<^verbatim>\<open>not x\<close> and \<^verbatim>\<open>x or y\<close> test it.\<close>

fun truthy :: "pyval \<Rightarrow> bool" where
  "truthy PNone = False"
| "truthy (PBool b) = b"
| "truthy (PInt n) = (n \<noteq> 0)"
| "truthy (PStr s) = (s \<noteq> [])"
| "truthy (PList xs) = (xs \<noteq> [])"
| "truthy (PDict d) = (d \<noteq> [])"

text \<open>\<^verbatim>\<open>for job in v\<close>: a list yields its elements, a str its characters, a dict its keys.\<close>

fun py_iter :: "pyval \<Rightarrow> error + pyval list" where
  "py_iter (PList xs) = Inr xs"
| "py_iter (PStr s) = Inr (map (\<lambda>c. PStr [c]) s)"
| "py_iter (PDict d) = Inr (map (\<lambda>kv. PStr (fst kv)) d)"
| "py_iter _ = Inl TypeError"

subsection \<open>Decimal digits, \<^verbatim>\<open>int(...)\<close> and \<^verbatim>\<open>float(...)\<close>\<close>

definition is_digit :: "char \<Rightarrow> bool" where
  "is_digit c = (c \<in> set ''0123456789'')"

definition digit_value :: "char \<Rightarrow> nat" where
  "digit_value c = of_char c - 48"

text \<open>The number a string of decimal digits denotes.\<close>

definition digits_value :: "string \<Rightarrow> nat" where
  "digits_value ds = foldl (\<lambda>acc c. 10 * acc + digit_value c) 0 ds"

text \<open>
  The blanks \<^verbatim>\<open>int(str)\<close> strips: tab, line feed, vertical tab, form feed, carriage return,
  space, and the two blanks of Latin-1 outside ASCII (0x85, 0xA0).
\<close>

definition is_space :: "char \<Rightarrow> bool" where
  "is_space c = (of_char c \<in> {9, 10, 11, 12, 13, 32, 133, 160 :: nat})"

definition strip :: "string \<Rightarrow> string" where
  "strip s = rev (dropWhile is_space (rev (dropWhile is_space s)))"

text \<open>
  Digits with single underscores between them (\<^verbatim>\<open>1_000\<close>): after a digit an underscore may
  follow only when another digit follows it.
\<close>

fun digits_with_underscores :: "string \<Rightarrow> bool" where
  "digits_with_underscores [] = False"
| "digits_with_underscores [c] = is_digit c"
| "digits_with_underscores (c # d # r) =
     (is_digit c \<and>
      (if d = CHR ''_'' then r \<noteq> [] \<and> digits_with_underscores r
       else digits_with_underscores (d # r)))"

text \<open>
  The interpreter's limit on the digits of a decimal literal it converts
  (\<^verbatim>\<open>sys.get_int_max_str_digits()\<close>, 4300 unless configured otherwise): leading zeros count,
  underscores, sign and blanks do not.
\<close>

definition max_str_digits :: nat where
  "max_str_digits = 4300"

text \<open>
  \<^verbatim>\<open>int(s)\<close> for a str, base 10: blanks around, one optional sign, digits. A literal of more
  than \<^verbatim>\<open>max_str_digits\<close> digits raises \<^verbatim>\<open>ValueError\<close>, as a text that is no literal does.
\<close>

definition py_int_of_str :: "string \<Rightarrow> error + int" where
  "py_int_of_str s =
     (let t = strip s;
          negative = (t \<noteq> [] \<and> hd t = CHR ''-'');
          body = (if t \<noteq> [] \<and> (hd t = CHR ''-'' \<or> hd t = CHR ''+'') then tl t else t)
      in if digits_with_underscores body \<and>
            length (filter (\<lambda>c. c \<noteq> CHR ''_'') body) \<le> max_str_digits
         then Inr ((if negative then - 1 else 1) *
                   int (digits_value (filter (\<lambda>c. c \<noteq> CHR ''_'') body)))
         else Inl ValueError)"

text \<open>\<^verbatim>\<open>int(v)\<close>.\<close>

fun py_int :: "pyval \<Rightarrow> error + int" where
  "py_int (PInt n) = Inr n"
| "py_int (PBool b) = Inr (if b then 1 else 0)"
| "py_int (PStr s) = py_int_of_str s"
| "py_int _ = Inl TypeError"

text \<open>
  \<^verbatim>\<open>float(s)\<close> on the texts \<^verbatim>\<open>Coordinates.from_string\<close> passes to it: an optional
  minus sign, digits, a point, digits. The result is the decimal's exact value; the rounding to a
  binary double is not modelled. Python's \<^verbatim>\<open>float\<close> accepts more texts (an exponent,
  blanks, \<^verbatim>\<open>inf\<close>), none of which contains a comma: a text with a comma raises
  \<^verbatim>\<open>ValueError\<close>, as here.
\<close>

definition py_float :: "string \<Rightarrow> error + rat" where
  "py_float s =
     (let negative = (s \<noteq> [] \<and> hd s = CHR ''-'');
          body = (if negative then tl s else s);
          whole = takeWhile is_digit body;
          rest = dropWhile is_digit body
      in case rest of
           [] \<Rightarrow> Inl ValueError
         | p # fraction \<Rightarrow>
             if p = CHR ''.'' \<and> whole \<noteq> [] \<and> fraction \<noteq> [] \<and> list_all is_digit fraction
             then Inr ((if negative then - 1 else 1) *
                       (of_nat (digits_value whole) +
                        of_nat (digits_value fraction) / 10 ^ length fraction))
             else Inl ValueError)"

section \<open>Coordinates\<close>

record Coordinates =
  latitude :: rat
  longitude :: rat

subsection \<open>The regular expression of \<^verbatim>\<open>Coordinates.from_string\<close>\<close>

text \<open>
  \<^verbatim>\<open>re.match(r'^(-?\d+[\.,]\d+).*?[;,/].*?(-?\d+[\.,]\d+)$', coord_str)\<close>.
  The expression is a sequence of character classes, each with a quantifier. A backtracking matcher
  tries the alternatives of every quantifier in a fixed order (a greedy one the longest run first, a
  lazy one the shortest first) and returns the first complete match. The model lists all the
  matches in that order.
\<close>

datatype quant = Once | Optional | Plus_greedy | Star_lazy

type_synonym atom = "quant \<times> (char \<Rightarrow> bool)"

text \<open>Every way to split off a run of characters of the class, the shortest run first.\<close>

fun runs :: "(char \<Rightarrow> bool) \<Rightarrow> string \<Rightarrow> (string \<times> string) list" where
  "runs p [] = [([], [])]"
| "runs p (c # s) =
     ([], c # s) # (if p c then map (\<lambda>(a, r). (c # a, r)) (runs p s) else [])"

text \<open>The (consumed, rest) alternatives of one quantified class, in the matcher's order.\<close>

fun match_atom :: "atom \<Rightarrow> string \<Rightarrow> (string \<times> string) list" where
  "match_atom (Once, p) s = (case s of [] \<Rightarrow> [] | c # r \<Rightarrow> if p c then [([c], r)] else [])"
| "match_atom (Optional, p) s =
     (case s of [] \<Rightarrow> [] | c # r \<Rightarrow> if p c then [([c], r)] else []) @ [([], s)]"
| "match_atom (Plus_greedy, p) s = rev (tl (runs p s))"
| "match_atom (Star_lazy, p) s = runs p s"

fun match_seq :: "atom list \<Rightarrow> string \<Rightarrow> (string \<times> string) list" where
  "match_seq [] s = [([], s)]"
| "match_seq (a # as) s =
     concat (map (\<lambda>(x, r). map (\<lambda>(y, r'). (x @ y, r')) (match_seq as r)) (match_atom a s))"

definition is_decimal_point :: "char \<Rightarrow> bool" where
  "is_decimal_point c = (c = CHR ''.'' \<or> c = CHR '','')"

definition is_separator :: "char \<Rightarrow> bool" where
  "is_separator c = (c = CHR '';'' \<or> c = CHR '','' \<or> c = CHR ''/'')"

text \<open>The dot of the expression: any character but a line feed.\<close>

definition is_any :: "char \<Rightarrow> bool" where
  "is_any c = (c \<noteq> CHR 0x0A)"

text \<open>\<^verbatim>\<open>-?\d+[\.,]\d+\<close>\<close>

definition number_rx :: "atom list" where
  "number_rx =
     [(Optional, \<lambda>c. c = CHR ''-''), (Plus_greedy, is_digit), (Once, is_decimal_point),
      (Plus_greedy, is_digit)]"

text \<open>\<^verbatim>\<open>.*?[;,/].*?\<close>\<close>

definition middle_rx :: "atom list" where
  "middle_rx = [(Star_lazy, is_any), (Once, is_separator), (Star_lazy, is_any)]"

text \<open>\<^verbatim>\<open>$\<close>: at the end of the text, or before a line feed that ends it.\<close>

definition at_end :: "string \<Rightarrow> bool" where
  "at_end r = (r = [] \<or> r = [CHR 0x0A])"

text \<open>All matches of the whole expression as (group 1, group 2), in the matcher's order.\<close>

definition re_matches :: "string \<Rightarrow> (string \<times> string) list" where
  "re_matches s =
     concat (map (\<lambda>(g1, r1).
       concat (map (\<lambda>(m, r2).
         concat (map (\<lambda>(g2, r3). if at_end r3 then [(g1, g2)] else [])
           (match_seq number_rx r2)))
         (match_seq middle_rx r1)))
       (match_seq number_rx s))"

text \<open>\<^verbatim>\<open>latitude.replace(',', '.')\<close>\<close>

definition comma_to_point :: "string \<Rightarrow> string" where
  "comma_to_point g = map (\<lambda>c. if c = CHR '','' then CHR ''.'' else c) g"

text \<open>\<^verbatim>\<open>Coordinates.from_string\<close>\<close>

definition from_string :: "string \<Rightarrow> error + Coordinates" where
  "from_string coord_str =
     (if coord_str = [] then Inr \<lparr>latitude = 0, longitude = 0\<rparr>
      else case re_matches coord_str of
             [] \<Rightarrow> Inl ValueError
           | (g1, g2) # _ \<Rightarrow>
               (case py_float (comma_to_point g1) of
                  Inl e \<Rightarrow> Inl e
                | Inr lat \<Rightarrow>
                    (case py_float (comma_to_point g2) of
                       Inl e \<Rightarrow> Inl e
                     | Inr lon \<Rightarrow> Inr \<lparr>latitude = lat, longitude = lon\<rparr>)))"


section \<open>The configuration model (\<^verbatim>\<open>astro/configuration.py\<close>)\<close>

text \<open>Running one step after another: the first exception ends the run.\<close>

fun and_then :: "error + 'a \<Rightarrow> ('a \<Rightarrow> error + 'b) \<Rightarrow> error + 'b" where
  "and_then (Inl e) f = Inl e"
| "and_then (Inr x) f = f x"

text \<open>A list comprehension whose element expression can raise.\<close>

fun map_result :: "('a \<Rightarrow> error + 'b) \<Rightarrow> 'a list \<Rightarrow> error + 'b list" where
  "map_result f [] = Inr []"
| "map_result f (x # xs) =
     and_then (f x) (\<lambda>y. and_then (map_result f xs) (\<lambda>ys. Inr (y # ys)))"

subsection \<open>The enumerations\<close>

datatype ConfigurationVersion = V3_0 | V2_0 | V1_0

datatype SunLocation =
    SOLAR_NOON | SUNSET | CIVIL_DAWN | NAUTICAL_DAWN | ASTRONOMICAL_DAWN
  | ASTRONOMICAL_DUSK | NAUTICAL_DUSK | CIVIL_DUSK | SUNRISE

datatype ValidationJobAction = SET | CLEAR

text \<open>The \<^verbatim>\<open>.value\<close> of a member.\<close>

fun version_value :: "ConfigurationVersion \<Rightarrow> string" where
  "version_value V3_0 = ''3.0''"
| "version_value V2_0 = ''2.0''"
| "version_value V1_0 = ''1.0''"

fun sun_location_value :: "SunLocation \<Rightarrow> string" where
  "sun_location_value SOLAR_NOON = ''solar noon''"
| "sun_location_value SUNSET = ''sunset''"
| "sun_location_value CIVIL_DAWN = ''civil dawn''"
| "sun_location_value NAUTICAL_DAWN = ''nautical dawn''"
| "sun_location_value ASTRONOMICAL_DAWN = ''astronomical dawn''"
| "sun_location_value ASTRONOMICAL_DUSK = ''astronomical dusk''"
| "sun_location_value NAUTICAL_DUSK = ''nautical dusk''"
| "sun_location_value CIVIL_DUSK = ''civil dusk''"
| "sun_location_value SUNRISE = ''sunrise''"

fun action_value :: "ValidationJobAction \<Rightarrow> string" where
  "action_value SET = ''set''"
| "action_value CLEAR = ''clear''"

definition sun_locations :: "SunLocation list" where
  "sun_locations =
     [SOLAR_NOON, SUNSET, CIVIL_DAWN, NAUTICAL_DAWN, ASTRONOMICAL_DAWN, ASTRONOMICAL_DUSK,
      NAUTICAL_DUSK, CIVIL_DUSK, SUNRISE]"

text \<open>
  Calling an enumeration on a value, \<^verbatim>\<open>SunLocation(x)\<close>: the member with that value, and
  \<^verbatim>\<open>ValueError\<close> when there is none. The values are strings, so no other Python value has
  a member.
\<close>

definition enum_call :: "'m list \<Rightarrow> ('m \<Rightarrow> string) \<Rightarrow> pyval \<Rightarrow> error + 'm" where
  "enum_call members val x =
     (case x of
        PStr s \<Rightarrow> (case find (\<lambda>m. val m = s) members of None \<Rightarrow> Inl ValueError | Some m \<Rightarrow> Inr m)
      | _ \<Rightarrow> Inl ValueError)"

definition ConfigurationVersion_of :: "pyval \<Rightarrow> error + ConfigurationVersion" where
  "ConfigurationVersion_of = enum_call [V3_0, V2_0, V1_0] version_value"

definition SunLocation_of :: "pyval \<Rightarrow> error + SunLocation" where
  "SunLocation_of = enum_call sun_locations sun_location_value"

definition ValidationJobAction_of :: "pyval \<Rightarrow> error + ValidationJobAction" where
  "ValidationJobAction_of = enum_call [SET, CLEAR] action_value"

subsection \<open>The dataclasses\<close>

text \<open>
  Python does not enforce a dataclass's annotations. The ids hold what the document held (the
  validation turns a str id into an int), and so do the offsets of a version-1.0 migration.
  \<^verbatim>\<open>_verify_configuration\<close> tests \<^verbatim>\<open>job.sun_location not in SunLocation\<close>, so a
  \<^verbatim>\<open>sun_location\<close> is a member or, for a job built by hand, a str that was never converted.
  \<^verbatim>\<open>Configuration.coordinates\<close> is a \<^verbatim>\<open>Coordinates\<close> or \<^verbatim>\<open>None\<close>.
\<close>

datatype sun_location_field = Member SunLocation | Raw string

record GroupActionJob =
  group_action_id :: pyval
  ga_sun_location :: sun_location_field
  ga_offset :: pyval

record ValidationJob =
  action :: ValidationJobAction
  bit_id :: pyval
  vj_sun_location :: sun_location_field
  vj_offset :: pyval

record Configuration =
  coordinates :: "Coordinates option"
  group_action_jobs :: "GroupActionJob list"
  validation_jobs :: "ValidationJob list"
  version :: ConfigurationVersion

record ConfigurationFactory =
  config :: "Configuration option"

subsection \<open>Operators on document values\<close>

text \<open>\<^verbatim>\<open>v >= 0\<close> and \<^verbatim>\<open>v < 0\<close>: an int or a bool compares, every other value raises.\<close>

fun py_ge0 :: "pyval \<Rightarrow> error + bool" where
  "py_ge0 (PInt n) = Inr (0 \<le> n)"
| "py_ge0 (PBool b) = Inr True"
| "py_ge0 _ = Inl TypeError"

fun py_lt0 :: "pyval \<Rightarrow> error + bool" where
  "py_lt0 (PInt n) = Inr (n < 0)"
| "py_lt0 (PBool b) = Inr False"
| "py_lt0 _ = Inl TypeError"

text \<open>\<^verbatim>\<open>-v\<close>\<close>

fun py_neg :: "pyval \<Rightarrow> error + pyval" where
  "py_neg (PInt n) = Inr (PInt (- n))"
| "py_neg (PBool b) = Inr (PInt (if b then - 1 else 0))"
| "py_neg _ = Inl TypeError"

text \<open>\<^verbatim>\<open>v or 0\<close>\<close>

definition or_zero :: "pyval \<Rightarrow> pyval" where
  "or_zero v = (if truthy v then v else PInt 0)"

text \<open>
  \<^verbatim>\<open>Coordinates.from_string(coordinates)\<close> on a document value: a value that is not a str
  is not the empty string, and \<^verbatim>\<open>re.match\<close> raises \<^verbatim>\<open>TypeError\<close> on it.
\<close>

definition coordinates_from :: "pyval \<Rightarrow> error + Coordinates" where
  "coordinates_from v = (case v of PStr s \<Rightarrow> from_string s | _ \<Rightarrow> Inl TypeError)"

subsection \<open>\<^verbatim>\<open>_determine_configuration_version\<close>\<close>

definition determine_configuration_version :: "pydict \<Rightarrow> error + ConfigurationVersion" where
  "determine_configuration_version config_data =
     (case map_of config_data ''version'' of
        Some version_str \<Rightarrow> ConfigurationVersion_of version_str
      | None \<Rightarrow>
          if map_of config_data ''basic_configuration'' \<noteq> None \<and>
             map_of config_data ''advanced_configuration'' \<noteq> None
          then Inr V2_0
          else Inr V1_0)"

subsection \<open>\<^verbatim>\<open>_migrate_configuration_v1\<close>\<close>

text \<open>
  The loop over the five tuples of a bit id, the start and the stop event, and whether the
  bright offset counts. A role whose bit is at least 0
  appends two validation jobs and two group action jobs; \<^verbatim>\<open>-bright_offset\<close> is evaluated
  only for the tuple that accounts for the offset.
\<close>

fun v1_roles_loop ::
  "(pyval \<times> SunLocation \<times> SunLocation \<times> bool) list \<Rightarrow> pyval \<Rightarrow> pyval \<Rightarrow>
   GroupActionJob list \<times> ValidationJob list \<Rightarrow>
   error + (GroupActionJob list \<times> ValidationJob list)" where
  "v1_roles_loop [] bright_offset gid jobs = Inr jobs"
| "v1_roles_loop ((role_bit, start, stop, account_offset) # rest) bright_offset gid (gjobs, vjobs) =
     and_then (py_ge0 role_bit) (\<lambda>enabled.
       if \<not> enabled
       then v1_roles_loop rest bright_offset gid (gjobs, vjobs)
       else
         and_then (if account_offset then py_neg bright_offset else Inr (PInt 0)) (\<lambda>stop_offset.
           let start_offset = (if account_offset then bright_offset else PInt 0) in
           v1_roles_loop rest bright_offset gid
             (gjobs @
                [\<lparr>group_action_id = gid, ga_sun_location = Member start,
                  ga_offset = start_offset\<rparr>,
                 \<lparr>group_action_id = gid, ga_sun_location = Member stop,
                  ga_offset = stop_offset\<rparr>],
              vjobs @
                [\<lparr>action = SET, bit_id = role_bit, vj_sun_location = Member start,
                  vj_offset = start_offset\<rparr>,
                 \<lparr>action = CLEAR, bit_id = role_bit, vj_sun_location = Member stop,
                  vj_offset = stop_offset\<rparr>])))"

definition migrate_configuration_v1 :: "pydict \<Rightarrow> error + Configuration" where
  "migrate_configuration_v1 config_data =
     and_then (determine_configuration_version config_data) (\<lambda>current.
       if current \<noteq> V1_0 then Inl ValueError
       else
         let coords = dict_get config_data ''coordinates'' PNone;
             horizon_bit_id = dict_get config_data ''horizon_bit'' (PInt (- 1));
             civil_bit_id = dict_get config_data ''civil_bit'' (PInt (- 1));
             nautical_bit_id = dict_get config_data ''nautical_bit'' (PInt (- 1));
             astronomical_bit_id = dict_get config_data ''astronomical_bit'' (PInt (- 1));
             bright_bit_id = dict_get config_data ''bright_bit'' (PInt (- 1));
             bright_offset = dict_get config_data ''bright_offset'' (PInt 0);
             gid = dict_get config_data ''group_action'' (PInt (- 1))
         in if \<not> truthy coords then Inl ValueError
            else
              and_then (coordinates_from coords) (\<lambda>coordinates_parsed.
                and_then
                  (v1_roles_loop
                     [(horizon_bit_id, SUNRISE, SUNSET, False),
                      (civil_bit_id, CIVIL_DAWN, CIVIL_DUSK, False),
                      (nautical_bit_id, NAUTICAL_DAWN, NAUTICAL_DUSK, False),
                      (astronomical_bit_id, ASTRONOMICAL_DAWN, ASTRONOMICAL_DUSK, False),
                      (bright_bit_id, SUNRISE, SUNSET, True)]
                     bright_offset gid ([], []))
                  (\<lambda>jobs.
                     Inr \<lparr>coordinates = Some coordinates_parsed,
                          group_action_jobs = fst jobs,
                          validation_jobs = snd jobs,
                          version = V3_0\<rparr>)))"

subsection \<open>\<^verbatim>\<open>_migrate_configuration_v2\<close> and \<^verbatim>\<open>_migrate_configuration_v3\<close>\<close>

text \<open>
  The element expressions of the two comprehensions. The keyword arguments are evaluated from
  left to right; \<^verbatim>\<open>int(job['offset'] or 0)\<close> makes the offset an int.
\<close>

definition group_action_job_of :: "pyval \<Rightarrow> error + GroupActionJob" where
  "group_action_job_of job =
     and_then (subscript job ''group_action_id'') (\<lambda>gid.
     and_then (subscript job ''sun_location'') (\<lambda>loc.
     and_then (SunLocation_of loc) (\<lambda>sun_location.
     and_then (subscript job ''offset'') (\<lambda>off.
     and_then (py_int (or_zero off)) (\<lambda>offset.
       Inr \<lparr>group_action_id = gid, ga_sun_location = Member sun_location,
            ga_offset = PInt offset\<rparr>)))))"

definition validation_job_of :: "pyval \<Rightarrow> error + ValidationJob" where
  "validation_job_of job =
     and_then (subscript job ''action'') (\<lambda>act.
     and_then (ValidationJobAction_of act) (\<lambda>job_action.
     and_then (subscript job ''bit_id'') (\<lambda>role_bit.
     and_then (subscript job ''sun_location'') (\<lambda>loc.
     and_then (SunLocation_of loc) (\<lambda>sun_location.
     and_then (subscript job ''offset'') (\<lambda>off.
     and_then (py_int (or_zero off)) (\<lambda>offset.
       Inr \<lparr>action = job_action, bit_id = role_bit, vj_sun_location = Member sun_location,
            vj_offset = PInt offset\<rparr>)))))))"

text \<open>What both migrations do once the version is checked.\<close>

definition migrate_lists :: "pydict \<Rightarrow> error + Configuration" where
  "migrate_lists config_data =
     (let coords = dict_get config_data ''coordinates'' PNone
      in if \<not> truthy coords then Inl ValueError
         else
           and_then (coordinates_from coords) (\<lambda>coordinates_parsed.
           and_then (py_iter (dict_get config_data ''basic_configuration'' (PList []))) (\<lambda>basic.
           and_then (map_result group_action_job_of basic) (\<lambda>gjobs.
           and_then (py_iter (dict_get config_data ''advanced_configuration'' (PList []))) (\<lambda>advanced.
           and_then (map_result validation_job_of advanced) (\<lambda>vjobs.
             Inr \<lparr>coordinates = Some coordinates_parsed,
                  group_action_jobs = gjobs,
                  validation_jobs = vjobs,
                  version = V3_0\<rparr>))))))"

definition migrate_configuration_v2 :: "pydict \<Rightarrow> error + Configuration" where
  "migrate_configuration_v2 config_data =
     and_then (determine_configuration_version config_data) (\<lambda>current.
       if current \<noteq> V2_0 then Inl ValueError else migrate_lists config_data)"

definition migrate_configuration_v3 :: "pydict \<Rightarrow> error + Configuration" where
  "migrate_configuration_v3 config_data =
     and_then (determine_configuration_version config_data) (\<lambda>current.
       if current \<noteq> V3_0 then Inl ValueError else migrate_lists config_data)"

subsection \<open>\<^verbatim>\<open>_verify_configuration\<close>\<close>

text \<open>
  \<^verbatim>\<open>x in SunLocation\<close> for a value that is no member depends on the interpreter: up to
  Python 3.7 it is False, from 3.8 to 3.11 it raises \<^verbatim>\<open>TypeError\<close>, and from 3.12 on it is True
  when the value is the value of a member. A member is always in its enumeration.
\<close>

datatype enum_contains = Non_member_is_absent | Non_member_raises | Value_is_member

definition in_SunLocation :: "enum_contains \<Rightarrow> sun_location_field \<Rightarrow> error + bool" where
  "in_SunLocation sem x =
     (case x of
        Member m \<Rightarrow> Inr True
      | Raw s \<Rightarrow>
          (case sem of
             Non_member_is_absent \<Rightarrow> Inr False
           | Non_member_raises \<Rightarrow> Inl TypeError
           | Value_is_member \<Rightarrow> Inr (s \<in> set (map sun_location_value sun_locations))))"

text \<open>
  The \<^verbatim>\<open>try\<close> block of both loops: a str id becomes \<^verbatim>\<open>int(id)\<close>, and the
  \<^verbatim>\<open>ValueError\<close> of a text that is no integer is raised again as a \<^verbatim>\<open>ValueError\<close>.
\<close>

definition coerce_id :: "pyval \<Rightarrow> error + pyval" where
  "coerce_id v =
     (case v of
        PStr s \<Rightarrow> (case py_int_of_str s of Inl e \<Rightarrow> Inl ValueError | Inr n \<Rightarrow> Inr (PInt n))
      | _ \<Rightarrow> Inr v)"

text \<open>
  The loop over the group action jobs. It assigns the coerced id to the job and looks at nothing
  but the id.
\<close>

fun verify_group_action_jobs :: "GroupActionJob list \<Rightarrow> error + GroupActionJob list" where
  "verify_group_action_jobs [] = Inr []"
| "verify_group_action_jobs (job # rest) =
     and_then (coerce_id (group_action_id job)) (\<lambda>gid.
     and_then (py_lt0 gid) (\<lambda>negative.
       if negative then Inl ValueError
       else and_then (verify_group_action_jobs rest) (\<lambda>rest'.
              Inr (job\<lparr>group_action_id := gid\<rparr> # rest'))))"

text \<open>
  The loop over the validation jobs. The message of the error for a negative id reads
  \<^verbatim>\<open>job.sun_location.value\<close>, which a str does not have.
\<close>

fun verify_validation_jobs ::
  "enum_contains \<Rightarrow> ValidationJob list \<Rightarrow> error + ValidationJob list" where
  "verify_validation_jobs sem [] = Inr []"
| "verify_validation_jobs sem (job # rest) =
     and_then (coerce_id (bit_id job)) (\<lambda>coerced.
     and_then (py_lt0 coerced) (\<lambda>negative.
       if negative
       then (case vj_sun_location job of Member m \<Rightarrow> Inl ValueError | Raw s \<Rightarrow> Inl AttributeError)
       else
         and_then (in_SunLocation sem (vj_sun_location job)) (\<lambda>known.
           if \<not> known then Inl ValueError
           else and_then (verify_validation_jobs sem rest) (\<lambda>rest'.
                  Inr (job\<lparr>bit_id := coerced\<rparr> # rest')))))"

text \<open>
  The function returns nothing and changes the jobs in place; the model returns the configuration
  with the changed jobs.
\<close>

definition verify_configuration :: "enum_contains \<Rightarrow> Configuration \<Rightarrow> error + Configuration" where
  "verify_configuration sem cfg =
     (if coordinates cfg = None then Inl ValueError
      else
        and_then (verify_group_action_jobs (group_action_jobs cfg)) (\<lambda>gjobs.
        and_then (verify_validation_jobs sem (validation_jobs cfg)) (\<lambda>vjobs.
          Inr (cfg\<lparr>group_action_jobs := gjobs, validation_jobs := vjobs\<rparr>))))"

subsection \<open>\<^verbatim>\<open>parse_configuration\<close>\<close>

text \<open>
  The call returns the new configuration or raises, and leaves the factory behind: the pair of
  the outcome and the factory after the call.
\<close>

definition parse_configuration ::
  "enum_contains \<Rightarrow> ConfigurationFactory \<Rightarrow> pydict \<Rightarrow>
   (error + Configuration) \<times> ConfigurationFactory" where
  "parse_configuration sem factory config_data =
     (case and_then (determine_configuration_version config_data) (\<lambda>current_version.
             and_then
               (case current_version of
                  V1_0 \<Rightarrow> migrate_configuration_v1 config_data
                | V2_0 \<Rightarrow> migrate_configuration_v2 config_data
                | V3_0 \<Rightarrow> migrate_configuration_v3 config_data)
               (verify_configuration sem)) of
        Inl e \<Rightarrow> (Inl e, factory)
      | Inr curr_config \<Rightarrow> (Inr curr_config, factory\<lparr>config := Some curr_config\<rparr>))"

section \<open>The scheduler (\<^verbatim>\<open>astro/main.py\<close>)\<close>

text \<open>
  A point in time is a number of microseconds since the epoch: the aware \<^verbatim>\<open>datetime\<close> values
  and the seconds of \<^verbatim>\<open>time.time()\<close> lie on this one axis, and aware datetimes compare by
  the instant they denote.
\<close>

type_synonym time = int

definition seconds :: "int \<Rightarrow> int" where
  "seconds n = n * 1000000"

definition minutes :: "int \<Rightarrow> int" where
  "minutes n = n * 60000000"

definition days :: "int \<Rightarrow> int" where
  "days n = n * 86400000000"

subsection \<open>The action index built by \<^verbatim>\<open>_read_config\<close>\<close>

text \<open>
  The keys of the two dicts. \<^verbatim>\<open>_read_config\<close> files a group action under
  \<^verbatim>\<open>entry.sun_location.value\<close>, a str, and a bit action under \<^verbatim>\<open>entry.sun_location\<close>,
  the member itself. A member of a plain \<^verbatim>\<open>Enum\<close> is not equal to its value, so the two are
  different keys.
\<close>

datatype key = Str_key string | Enum_key SunLocation

record group_action_entry =
  entry_group_action_id :: int
  entry_offset :: int

record bit_entry =
  entry_bit_id :: int
  entry_action :: string
  entry_bit_offset :: int

text \<open>\<^verbatim>\<open>d.setdefault(k, []).append(v)\<close> on a dict in insertion order.\<close>

fun setdefault_append :: "('k \<times> 'v list) list \<Rightarrow> 'k \<Rightarrow> 'v \<Rightarrow> ('k \<times> 'v list) list" where
  "setdefault_append [] k v = [(k, [v])]"
| "setdefault_append ((k', vs) # rest) k v =
     (if k' = k then (k', vs @ [v]) # rest else (k', vs) # setdefault_append rest k v)"

text \<open>\<^verbatim>\<open>d.get(k, [])\<close>\<close>

definition get_list :: "('k \<times> 'v list) list \<Rightarrow> 'k \<Rightarrow> 'v list" where
  "get_list d k = (case map_of d k of None \<Rightarrow> [] | Some vs \<Rightarrow> vs)"




subsection \<open>The plugin's state and its environment\<close>

text \<open>
  A plan entry: the task with its data (\<^verbatim>\<open>'bit'\<close> with action and bit id, or
  \<^verbatim>\<open>'group_action'\<close> with the id), and the sun location and offset its source label is
  formatted from.
\<close>

datatype task = Bit_task string int | Group_action_task int

record plan_entry =
  task :: task
  source_location :: key
  source_offset :: int

type_synonym execution_plan = "(time \<times> plan_entry list) list"

text \<open>
  The fields of the plugin the scheduler uses, and three observations of its run:
  \<^verbatim>\<open>clock\<close> is the current time, \<^verbatim>\<open>requests_made\<close> counts the calls of
  \<^verbatim>\<open>requests.get\<close>, and \<^verbatim>\<open>basic_actions\<close> lists the calls of
  \<^verbatim>\<open>do_basic_action\<close> as (action type, action number).
\<close>

record astro =
  enabled :: bool
  group_actions :: "(key \<times> group_action_entry list) list"
  bits :: "(key \<times> bit_entry list) list"
  last_request_date :: "time option"
  execution_plan :: execution_plan
  sleep_until :: time
  clock :: time
  requests_made :: nat
  basic_actions :: "(int \<times> int) list"

text \<open>
  What a request to the solar-time source comes to: \<^verbatim>\<open>requests.get\<close> raises, or there is
  a response with a status code and a body that \<^verbatim>\<open>req.json()\<close> parses (\<open>Some\<close>) or not.
\<close>

datatype response = No_response | Response int "pyval option"

text \<open>
  What the plugin does not decide. \<^verbatim>\<open>strptime\<close> is
  \<^verbatim>\<open>datetime.strptime(s, '%Y-%m-%dT%H:%M:%S+00:00')\<close> made aware in UTC (\<open>None\<close> where it
  raises); \<^verbatim>\<open>http_get\<close> gives, for the n-th request, the time it takes and its outcome;
  \<^verbatim>\<open>iteration_order\<close> is the order in which the set of the index's keys is iterated;
  \<^verbatim>\<open>call_duration\<close> is the time a call of \<^verbatim>\<open>do_basic_action\<close> takes.
\<close>

record environment =
  strptime :: "string \<Rightarrow> time option"
  http_get :: "nat \<Rightarrow> nat \<times> response"
  iteration_order :: "key list"
  call_duration :: "plan_entry \<Rightarrow> nat"

subsection \<open>\<^verbatim>\<open>timedelta\<close> and \<^verbatim>\<open>datetime\<close> arithmetic\<close>

text \<open>
  \<^verbatim>\<open>timedelta(minutes=m)\<close> raises \<^verbatim>\<open>OverflowError\<close> unless its days are within
  \<open>\<plusminus>999999999\<close>; adding to a datetime raises it unless the result is between the years 1 and
  9999.
\<close>

definition timedelta_minutes :: "int \<Rightarrow> error + int" where
  "timedelta_minutes m =
     (if - 999999999 \<le> m div 1440 \<and> m div 1440 \<le> 999999999 then Inr (minutes m)
      else Inl OverflowError)"

definition datetime_min :: time where
  "datetime_min = seconds (- 62135596800)"

definition datetime_max :: time where
  "datetime_max = 253402300799999999"

definition datetime_plus :: "time \<Rightarrow> int \<Rightarrow> error + time" where
  "datetime_plus date delta =
     (if datetime_min \<le> date + delta \<and> date + delta \<le> datetime_max then Inr (date + delta)
      else Inl OverflowError)"

text \<open>\<^verbatim>\<open>date + timedelta(minutes=entry['offset'])\<close>\<close>

definition fire_time :: "time \<Rightarrow> int \<Rightarrow> error + time" where
  "fire_time date off = and_then (timedelta_minutes off) (datetime_plus date)"

subsection \<open>\<^verbatim>\<open>_convert\<close>\<close>

text \<open>
  \<open>None\<close> for \<^verbatim>\<open>None\<close>, for a value \<^verbatim>\<open>strptime\<close> raises on (it raises
  \<^verbatim>\<open>TypeError\<close> on what is no str; the function catches every exception) and for a date in
  1970, the source's way to say that the event does not happen.
\<close>

definition year_1970 :: "time \<Rightarrow> bool" where
  "year_1970 t = (0 \<le> t \<and> t < days 365)"

definition convert :: "(string \<Rightarrow> time option) \<Rightarrow> pyval \<Rightarrow> time option" where
  "convert parse dt_string =
     (case dt_string of
        PStr s \<Rightarrow>
          (case parse s of None \<Rightarrow> None | Some date \<Rightarrow> if year_1970 date then None else Some date)
      | _ \<Rightarrow> None)"

subsection \<open>\<^verbatim>\<open>_build_execution_plan\<close>\<close>

definition field_map :: "(string \<times> string) list" where
  "field_map =
     [(''solar noon'', ''solar_noon''),
      (''sunset'', ''sunset''),
      (''civil dusk'', ''civil_twilight_end''),
      (''nautical dusk'', ''nautical_twilight_end''),
      (''astronomical dusk'', ''astronomical_twilight_end''),
      (''astronomical dawn'', ''astronomical_twilight_begin''),
      (''nautical dawn'', ''nautical_twilight_begin''),
      (''civil dawn'', ''civil_twilight_begin''),
      (''sunrise'', ''sunrise'')]"

text \<open>\<^verbatim>\<open>field_map.get(sun_location, 'x')\<close>: the keys of the map are strs.\<close>

definition field_of :: "key \<Rightarrow> string" where
  "field_of k =
     (case k of
        Str_key s \<Rightarrow> (case map_of field_map s of None \<Rightarrow> ''x'' | Some f \<Rightarrow> f)
      | Enum_key m \<Rightarrow> ''x'')"

text \<open>\<^verbatim>\<open>data['results'].get(field)\<close>\<close>

definition results_get :: "pyval \<Rightarrow> string \<Rightarrow> error + pyval" where
  "results_get data field =
     and_then (subscript data ''results'') (\<lambda>results.
       case results of PDict d \<Rightarrow> Inr (dict_get d field PNone) | _ \<Rightarrow> Inl AttributeError)"

text \<open>
  One of the two loops over the actions of a location, on the offsets and the entries to append:
  an entry whose time is before \<open>now\<close> is skipped.
\<close>

fun plan_actions ::
  "time \<Rightarrow> time \<Rightarrow> (int \<times> plan_entry) list \<Rightarrow> execution_plan \<Rightarrow> error + execution_plan" where
  "plan_actions date now [] plan = Inr plan"
| "plan_actions date now ((off, e) # rest) plan =
     and_then (fire_time date off) (\<lambda>entry_date.
       if entry_date < now then plan_actions date now rest plan
       else plan_actions date now rest (setdefault_append plan entry_date e))"

text \<open>The entries the two loops append, with their offsets.\<close>

definition bit_actions :: "key \<Rightarrow> bit_entry list \<Rightarrow> (int \<times> plan_entry) list" where
  "bit_actions sun_location entries =
     map (\<lambda>entry. (entry_bit_offset entry,
                   \<lparr>task = Bit_task (entry_action entry) (entry_bit_id entry),
                    source_location = sun_location, source_offset = entry_bit_offset entry\<rparr>))
       entries"

definition automation_actions :: "key \<Rightarrow> group_action_entry list \<Rightarrow> (int \<times> plan_entry) list" where
  "automation_actions sun_location entries =
     map (\<lambda>entry. (entry_offset entry,
                   \<lparr>task = Group_action_task (entry_group_action_id entry),
                    source_location = sun_location, source_offset = entry_offset entry\<rparr>))
       entries"

text \<open>The loop over the sun locations, in the order the set is iterated.\<close>

fun plan_locations ::
  "(string \<Rightarrow> time option) \<Rightarrow> time \<Rightarrow> pyval \<Rightarrow> (key \<times> group_action_entry list) list \<Rightarrow>
   (key \<times> bit_entry list) list \<Rightarrow> key list \<Rightarrow> execution_plan \<Rightarrow> error + execution_plan" where
  "plan_locations parse now data gas bs [] plan = Inr plan"
| "plan_locations parse now data gas bs (sun_location # rest) plan =
     (if get_list gas sun_location = [] \<and> get_list bs sun_location = []
      then plan_locations parse now data gas bs rest plan
      else
        and_then (results_get data (field_of sun_location)) (\<lambda>dt_string.
          case convert parse dt_string of
            None \<Rightarrow> plan_locations parse now data gas bs rest plan
          | Some date \<Rightarrow>
              and_then (plan_actions date now
                          (bit_actions sun_location (get_list bs sun_location)) plan) (\<lambda>plan1.
              and_then (plan_actions date now
                          (automation_actions sun_location (get_list gas sun_location)) plan1)
                (\<lambda>plan2. plan_locations parse now data gas bs rest plan2))))"

text \<open>The body of the \<^verbatim>\<open>try\<close> block, from the response on.\<close>

definition attempt :: "environment \<Rightarrow> time \<Rightarrow> astro \<Rightarrow> response \<Rightarrow> error + execution_plan" where
  "attempt env now s r =
     (case r of
        No_response \<Rightarrow> Inl RequestException
      | Response status_code body \<Rightarrow>
          if status_code \<noteq> 200 then Inl RuntimeError
          else
            (case body of
               None \<Rightarrow> Inl ValueError
             | Some data \<Rightarrow>
                 and_then (subscript data ''status'') (\<lambda>status.
                   if status \<noteq> PStr ''OK'' then Inl RuntimeError
                   else plan_locations (strptime env) now data (group_actions s) (bits s)
                          (iteration_order env) [])))"

text \<open>
  The \<^verbatim>\<open>while retries > 0\<close> loop. A request takes its time; an exception of any class empties
  the plan and sleeps five seconds; a success stores the plan and leaves the loop.
\<close>

fun build_attempts :: "nat \<Rightarrow> environment \<Rightarrow> time \<Rightarrow> astro \<Rightarrow> astro" where
  "build_attempts 0 env now s = s"
| "build_attempts (Suc retries) env now s =
     (let requested = http_get env (requests_made s);
          s1 = s\<lparr>requests_made := Suc (requests_made s),
                 clock := clock s + int (fst requested)\<rparr>
      in case attempt env now s1 (snd requested) of
           Inr plan \<Rightarrow> s1\<lparr>execution_plan := plan\<rparr>
         | Inl e \<Rightarrow>
             build_attempts retries env now
               (s1\<lparr>execution_plan := [], clock := clock s1 + seconds 5\<rparr>))"

definition build_execution_plan :: "environment \<Rightarrow> time \<Rightarrow> astro \<Rightarrow> astro" where
  "build_execution_plan env now s = build_attempts 5 env now s"

subsection \<open>\<^verbatim>\<open>run\<close>\<close>

text \<open>The call of \<^verbatim>\<open>do_basic_action\<close> an entry leads to.\<close>

definition basic_action_of :: "plan_entry \<Rightarrow> int \<times> int" where
  "basic_action_of entry =
     (case task entry of
        Group_action_task automation \<Rightarrow> (2, automation)
      | Bit_task act flag \<Rightarrow> (if act = ''set'' then 237 else 238, flag))"

text \<open>
  The loop over \<^verbatim>\<open>list(self._execution_plan.keys())\<close>. It carries
  \<^verbatim>\<open>next_action_date\<close> and \<^verbatim>\<open>next_action_delta\<close>. A failing call is logged and changes
  nothing else.
\<close>

fun dispatch_scan ::
  "environment \<Rightarrow> time \<Rightarrow> time list \<Rightarrow> time \<times> int \<times> astro \<Rightarrow> time \<times> int \<times> astro" where
  "dispatch_scan env now [] acc = acc"
| "dispatch_scan env now (date # rest) (next_action_date, next_action_delta, s) =
     (let delta = \<bar>date - now\<bar> in
      if delta > minutes 5
      then
        (if date > now \<and> delta < next_action_delta
         then dispatch_scan env now rest (date, delta, s)
         else dispatch_scan env now rest (next_action_date, next_action_delta, s))
      else
        (let plan = get_list (execution_plan s) date in
         dispatch_scan env now rest
           (next_action_date, next_action_delta,
            s\<lparr>basic_actions := basic_actions s @ map basic_action_of plan,
              clock := clock s + int (sum_list (map (call_duration env) plan)),
              execution_plan := filter (\<lambda>p. fst p \<noteq> date) (execution_plan s)\<rparr>)))"

text \<open>
  One turn of the \<^verbatim>\<open>while True\<close> loop, from the wake to the call of \<^verbatim>\<open>_sleep\<close>, whose
  argument ends in \<^verbatim>\<open>sleep_until\<close>. \<open>today\<close> and \<open>tomorrow\<close> are the local midnights
  around \<open>now\<close>.
\<close>

definition run_iteration :: "environment \<Rightarrow> time \<Rightarrow> time \<Rightarrow> astro \<Rightarrow> astro" where
  "run_iteration env today tomorrow s =
     (if \<not> enabled s then s\<lparr>sleep_until := clock s + seconds 30\<rparr>
      else
        let now = clock s;
            s1 = (if Some today \<noteq> last_request_date s
                  then build_execution_plan env now (s\<lparr>last_request_date := Some today\<rparr>)
                  else s)
        in if execution_plan s1 = []
           then s1\<lparr>sleep_until := clock s1 + (tomorrow - now) + seconds 5\<rparr>
           else
             let scanned = dispatch_scan env now (map fst (execution_plan s1))
                             (tomorrow, days 2, s1);
                 next_action_date = fst scanned;
                 s2 = snd (snd scanned)
             in s2\<lparr>sleep_until := clock s2 + (next_action_date - now) + seconds 5\<rparr>)"

section \<open>The texts \<^verbatim>\<open>Coordinates.from_string\<close> accepts, stated on their own\<close>

text \<open>
  A sign-optional decimal: an optional minus sign, digits, a decimal point that is a dot or a
  comma, digits.
\<close>

definition decimal_text :: "string \<Rightarrow> bool" where
  "decimal_text n =
     (\<exists>sg whole p fr. n = sg @ whole @ [p] @ fr \<and> (sg = [] \<or> sg = ''-'') \<and>
        whole \<noteq> [] \<and> list_all is_digit whole \<and> is_decimal_point p \<and>
        fr \<noteq> [] \<and> list_all is_digit fr)"

text \<open>
  What stands between the two numbers: one separator, with any characters but line feeds before
  and after it.
\<close>

definition middle_text :: "string \<Rightarrow> bool" where
  "middle_text m =
     (\<exists>g1 sep g2. m = g1 @ [sep] @ g2 \<and> list_all is_any g1 \<and> is_separator sep \<and>
        list_all is_any g2)"

text \<open>
  The texts the regular expression matches: number, middle, number, and then the end of the text
  or one line feed that ends it.
\<close>

definition coordinate_text :: "string \<Rightarrow> bool" where
  "coordinate_text s =
     (\<exists>n1 m n2 e. s = n1 @ m @ n2 @ e \<and> decimal_text n1 \<and> middle_text m \<and>
        decimal_text n2 \<and> at_end e)"

text \<open>
  The pattern in the specification's words: number, separator, optional garbage, number. The
  separator follows the first number at once, and the second number ends the text.
\<close>

definition claimed_coordinate_text :: "string \<Rightarrow> bool" where
  "claimed_coordinate_text s =
     (\<exists>n1 sep g n2. s = n1 @ [sep] @ g @ n2 \<and> decimal_text n1 \<and> is_separator sep \<and>
        decimal_text n2)"

section \<open>The documents of the claims, stated on their own\<close>

subsection \<open>Version 1.0\<close>

text \<open>A field that is absent (and then has its default) or holds an int.\<close>

definition int_field :: "pydict \<Rightarrow> string \<Rightarrow> int \<Rightarrow> int option" where
  "int_field d k dflt =
     (case map_of d k of None \<Rightarrow> Some dflt | Some (PInt n) \<Rightarrow> Some n | Some _ \<Rightarrow> None)"


text \<open>
  A bit role as the specification describes it: the bit id, the event that sets the bit, the event
  that clears it, and the offsets of the two events.
\<close>

type_synonym bit_role = "int \<times> SunLocation \<times> SunLocation \<times> int \<times> int"

definition v1_roles :: "int \<Rightarrow> int \<Rightarrow> int \<Rightarrow> int \<Rightarrow> int \<Rightarrow> int \<Rightarrow> bit_role list" where
  "v1_roles horizon civil nautical astronomical bright bright_offset =
     [(horizon, SUNRISE, SUNSET, 0, 0),
      (civil, CIVIL_DAWN, CIVIL_DUSK, 0, 0),
      (nautical, NAUTICAL_DAWN, NAUTICAL_DUSK, 0, 0),
      (astronomical, ASTRONOMICAL_DAWN, ASTRONOMICAL_DUSK, 0, 0),
      (bright, SUNRISE, SUNSET, bright_offset, - bright_offset)]"


text \<open>What one role contributes: nothing when its bit is negative, else a SET and a CLEAR job.\<close>

fun role_validation_jobs :: "bit_role \<Rightarrow> ValidationJob list" where
  "role_validation_jobs (b, start, stop, start_offset, stop_offset) =
     (if 0 \<le> b
      then [\<lparr>action = SET, bit_id = PInt b, vj_sun_location = Member start,
             vj_offset = PInt start_offset\<rparr>,
            \<lparr>action = CLEAR, bit_id = PInt b, vj_sun_location = Member stop,
             vj_offset = PInt stop_offset\<rparr>]
      else [])"


text \<open>And two group action jobs with the automation id, at the same events and offsets.\<close>

fun role_group_action_jobs :: "pyval \<Rightarrow> bit_role \<Rightarrow> GroupActionJob list" where
  "role_group_action_jobs automation (b, start, stop, start_offset, stop_offset) =
     (if 0 \<le> b
      then [\<lparr>group_action_id = automation, ga_sun_location = Member start,
             ga_offset = PInt start_offset\<rparr>,
            \<lparr>group_action_id = automation, ga_sun_location = Member stop,
             ga_offset = PInt stop_offset\<rparr>]
      else [])"


text \<open>
  A valid version-1.0 document: the version is detected as 1.0, the coordinates parse, and the
  five bit fields and the bright offset are ints or absent.
\<close>

definition valid_v1 ::
  "pydict \<Rightarrow> Coordinates \<Rightarrow> int \<Rightarrow> int \<Rightarrow> int \<Rightarrow> int \<Rightarrow> int \<Rightarrow> int \<Rightarrow> bool" where
  "valid_v1 d c horizon civil nautical astronomical bright bright_offset =
     (determine_configuration_version d = Inr V1_0 \<and>
      (\<exists>s. map_of d ''coordinates'' = Some (PStr s) \<and> s \<noteq> [] \<and> from_string s = Inr c) \<and>
      int_field d ''horizon_bit'' (- 1) = Some horizon \<and>
      int_field d ''civil_bit'' (- 1) = Some civil \<and>
      int_field d ''nautical_bit'' (- 1) = Some nautical \<and>
      int_field d ''astronomical_bit'' (- 1) = Some astronomical \<and>
      int_field d ''bright_bit'' (- 1) = Some bright \<and>
      int_field d ''bright_offset'' 0 = Some bright_offset)"


text \<open>The tuples of the loop, with int bits, and the role each of them stands for.\<close>

fun code_role :: "int \<Rightarrow> int \<times> SunLocation \<times> SunLocation \<times> bool \<Rightarrow> bit_role" where
  "code_role off (b, start, stop, acc) =
     (b, start, stop, if acc then off else 0, if acc then - off else 0)"

fun int_tuple ::
  "int \<times> SunLocation \<times> SunLocation \<times> bool \<Rightarrow> pyval \<times> SunLocation \<times> SunLocation \<times> bool" where
  "int_tuple (b, start, stop, acc) = (PInt b, start, stop, acc)"


subsection \<open>Example documents\<close>

text \<open>The document of \<^verbatim>\<open>test_calculate_mapping_v1_with_multiple\<close>.\<close>

definition example_v1 :: pydict where
  "example_v1 =
     [(''bright_bit'', PInt 1), (''horizon_bit'', PInt (- 1)), (''bright_offset'', PInt 60),
      (''location'', PStr []), (''astronomical_bit'', PInt 2), (''nautical_bit'', PInt (- 1)),
      (''civil_bit'', PInt (- 1)), (''coordinates'', PStr ''51.064630;3.737539''),
      (''group_action'', PInt 0)]"

text \<open>The same document without its \<^verbatim>\<open>group_action\<close>.\<close>

definition example_v1_no_automation :: pydict where
  "example_v1_no_automation = filter (\<lambda>kv. fst kv \<noteq> ''group_action'') example_v1"

text \<open>A document of a version the code does not know, and a configuration parsed before it.\<close>

definition example_unknown_version :: pydict where
  "example_unknown_version =
     [(''version'', PStr ''4.0''), (''coordinates'', PStr ''51.064630;3.737539'')]"

definition example_previous :: Configuration where
  "example_previous =
     \<lparr>coordinates = Some \<lparr>latitude = 0, longitude = 0\<rparr>, group_action_jobs = [],
      validation_jobs = [], version = V3_0\<rparr>"

subsection \<open>Versions 2.0 and 3.0\<close>

text \<open>
  The offset of a list entry as the specification has it: null and the empty string are 0, and any
  other value is the int it converts to. A value \<^verbatim>\<open>int(...)\<close> raises on has no offset: so a
  str that is no integer literal, and a literal of more than 4300 digits.
\<close>

definition offset_of :: "pyval \<Rightarrow> int option" where
  "offset_of v =
     (if v = PNone \<or> v = PStr [] then Some 0
      else case py_int v of Inr n \<Rightarrow> Some n | Inl e \<Rightarrow> None)"


text \<open>The member of a recognized token.\<close>

definition token_member :: "pyval \<Rightarrow> SunLocation option" where
  "token_member v =
     (case v of PStr t \<Rightarrow> find (\<lambda>m. sun_location_value m = t) sun_locations | _ \<Rightarrow> None)"

definition token_action :: "pyval \<Rightarrow> ValidationJobAction option" where
  "token_action v =
     (case v of PStr t \<Rightarrow> find (\<lambda>m. action_value m = t) [SET, CLEAR] | _ \<Rightarrow> None)"


text \<open>
  The job an entry of \<^verbatim>\<open>basic_configuration\<close> maps to: id and sun location copied, the
  offset coerced. An entry that is no such object has none.
\<close>

definition basic_entry :: "pyval \<Rightarrow> GroupActionJob option" where
  "basic_entry e =
     (case e of
        PDict j \<Rightarrow>
          (case (map_of j ''group_action_id'', map_of j ''sun_location'', map_of j ''offset'') of
             (Some gid, Some loc, Some off) \<Rightarrow>
               (case (token_member loc, offset_of off) of
                  (Some m, Some n) \<Rightarrow>
                    Some \<lparr>group_action_id = gid, ga_sun_location = Member m, ga_offset = PInt n\<rparr>
                | _ \<Rightarrow> None)
           | _ \<Rightarrow> None)
      | _ \<Rightarrow> None)"


text \<open>The same for an entry of \<^verbatim>\<open>advanced_configuration\<close>.\<close>

definition advanced_entry :: "pyval \<Rightarrow> ValidationJob option" where
  "advanced_entry e =
     (case e of
        PDict j \<Rightarrow>
          (case (map_of j ''action'', map_of j ''bit_id'', map_of j ''sun_location'',
                 map_of j ''offset'') of
             (Some act, Some b, Some loc, Some off) \<Rightarrow>
               (case (token_action act, token_member loc, offset_of off) of
                  (Some a, Some m, Some n) \<Rightarrow>
                    Some \<lparr>action = a, bit_id = b, vj_sun_location = Member m, vj_offset = PInt n\<rparr>
                | _ \<Rightarrow> None)
           | _ \<Rightarrow> None)
      | _ \<Rightarrow> None)"


text \<open>
  A valid document of version 2.0 or 3.0: the coordinates parse and the two lists (empty when
  absent) hold entries that map to the jobs \<open>gjobs\<close> and \<open>vjobs\<close>, one by one.
\<close>

definition valid_lists ::
  "pydict \<Rightarrow> Coordinates \<Rightarrow> GroupActionJob list \<Rightarrow> ValidationJob list \<Rightarrow> bool" where
  "valid_lists d c gjobs vjobs =
     ((\<exists>s. map_of d ''coordinates'' = Some (PStr s) \<and> s \<noteq> [] \<and> from_string s = Inr c) \<and>
      (\<exists>basic. dict_get d ''basic_configuration'' (PList []) = PList basic \<and>
         map basic_entry basic = map Some gjobs) \<and>
      (\<exists>advanced. dict_get d ''advanced_configuration'' (PList []) = PList advanced \<and>
         map advanced_entry advanced = map Some vjobs))"


text \<open>
  The document of \<^verbatim>\<open>test_calculate_mapping_v2\<close>, with one advanced entry whose offset is
  null, and the same document tagged 3.0.
\<close>

definition example_v2 :: pydict where
  "example_v2 =
     [(''basic_configuration'',
       PList [PDict [(''sun_location'', PStr ''sunset''), (''group_action_id'', PInt 3),
                     (''offset'', PStr ''30'')],
              PDict [(''sun_location'', PStr ''sunrise''), (''group_action_id'', PInt 5),
                     (''offset'', PStr ''-90'')]]),
      (''advanced_configuration'',
       PList [PDict [(''action'', PStr ''clear''), (''bit_id'', PInt 4),
                     (''sun_location'', PStr ''civil dusk''), (''offset'', PNone)]]),
      (''coordinates'', PStr ''42.854040, 13.896781'')]"

definition example_v3 :: pydict where
  "example_v3 = (''version'', PStr ''3.0'') # example_v2"

definition example_lists_group_action_jobs :: "GroupActionJob list" where
  "example_lists_group_action_jobs =
     [\<lparr>group_action_id = PInt 3, ga_sun_location = Member SUNSET, ga_offset = PInt 30\<rparr>,
      \<lparr>group_action_id = PInt 5, ga_sun_location = Member SUNRISE, ga_offset = PInt (- 90)\<rparr>]"

definition example_lists_validation_jobs :: "ValidationJob list" where
  "example_lists_validation_jobs =
     [\<lparr>action = CLEAR, bit_id = PInt 4, vj_sun_location = Member CIVIL_DUSK,
       vj_offset = PInt 0\<rparr>]"

subsection \<open>Validation\<close>





text \<open>The id after the validation: a str that converts is replaced by its int.\<close>

definition coerced :: "pyval \<Rightarrow> pyval" where
  "coerced v =
     (case v of
        PStr s \<Rightarrow> (case py_int_of_str s of Inr n \<Rightarrow> PInt n | Inl e \<Rightarrow> v)
      | _ \<Rightarrow> v)"













section \<open>The execution plan, stated on its own\<close>

text \<open>
  The event time of a sun location: what \<^verbatim>\<open>_convert\<close> makes of the field the location is
  looked up under, and \<open>None\<close> when there is no such time (no field, no parseable text, or a
  date in 1970).
\<close>

definition event_time :: "(string \<Rightarrow> time option) \<Rightarrow> pyval \<Rightarrow> key \<Rightarrow> time option" where
  "event_time parse data k =
     (case results_get data (field_of k) of Inl e \<Rightarrow> None | Inr v \<Rightarrow> convert parse v)"


text \<open>The actions of a location: its bit actions, then its group actions, each in index order.\<close>

definition location_actions ::
  "(key \<times> group_action_entry list) list \<Rightarrow> (key \<times> bit_entry list) list \<Rightarrow> key \<Rightarrow>
   (int \<times> plan_entry) list" where
  "location_actions gas bs k =
     bit_actions k (get_list bs k) @ automation_actions k (get_list gas k)"


text \<open>
  The actions that are not over: fire time (event time plus offset minutes) and entry of every
  action whose fire time is not before \<open>now\<close>, in the order of the actions.
\<close>

definition surviving :: "time \<Rightarrow> time \<Rightarrow> (int \<times> plan_entry) list \<Rightarrow> (time \<times> plan_entry) list" where
  "surviving date now acts =
     map (\<lambda>a. (date + minutes (fst a), snd a))
       (filter (\<lambda>a. now \<le> date + minutes (fst a)) acts)"


text \<open>What a location contributes to the plan.\<close>

definition contribution ::
  "(string \<Rightarrow> time option) \<Rightarrow> time \<Rightarrow> pyval \<Rightarrow> (key \<times> group_action_entry list) list \<Rightarrow>
   (key \<times> bit_entry list) list \<Rightarrow> key \<Rightarrow> (time \<times> plan_entry) list" where
  "contribution parse now data gas bs k =
     (case event_time parse data k of
        None \<Rightarrow> []
      | Some date \<Rightarrow>
          surviving date now (bit_actions k (get_list bs k)) @
          surviving date now (automation_actions k (get_list gas k)))"


text \<open>The entries of one fire time, and a plan as the grouping of timed entries.\<close>

definition entries_at :: "time \<Rightarrow> (time \<times> plan_entry) list \<Rightarrow> plan_entry list" where
  "entries_at t ps = map snd (filter (\<lambda>p. fst p = t) ps)"

definition grouped :: "(time \<times> plan_entry) list \<Rightarrow> execution_plan \<Rightarrow> execution_plan" where
  "grouped ps plan = foldl (\<lambda>p a. setdefault_append p (fst a) (snd a)) plan ps"


text \<open>An action of offset \<open>off\<close> fires at \<open>t\<close> and is not over.\<close>

definition due :: "time \<Rightarrow> time \<Rightarrow> time \<Rightarrow> int \<Rightarrow> bool" where
  "due date now t off = (date + minutes off = t \<and> now \<le> t)"




text \<open>
  Inputs on which the builder raises nothing: the response has a \<^verbatim>\<open>results\<close> object, and
  no offset of a location with an event time overflows the date arithmetic.
\<close>

definition plannable ::
  "(string \<Rightarrow> time option) \<Rightarrow> pyval \<Rightarrow> (key \<times> group_action_entry list) list \<Rightarrow>
   (key \<times> bit_entry list) list \<Rightarrow> key list \<Rightarrow> bool" where
  "plannable parse data gas bs order =
     ((\<exists>r. subscript data ''results'' = Inr (PDict r)) \<and>
      list_all (\<lambda>k. case event_time parse data k of
                      None \<Rightarrow> True
                    | Some date \<Rightarrow>
                        list_all (\<lambda>a. fire_time date (fst a) \<noteq> Inl OverflowError)
                          (location_actions gas bs k)) order)"


text \<open>The claim's order of a plan-entry list: no bit action after a group action.\<close>

definition is_bit_entry :: "plan_entry \<Rightarrow> bool" where
  "is_bit_entry e = (case task e of Bit_task act flag \<Rightarrow> True | Group_action_task n \<Rightarrow> False)"


subsection \<open>Examples\<close>

text \<open>
  \<^verbatim>\<open>strptime\<close> at the texts of the examples: sunrise, sunset and civil dawn of
  2024-06-01, and a date in 1970.
\<close>

definition sample_strptime :: "string \<Rightarrow> time option" where
  "sample_strptime s =
     (if s = ''2024-06-01T03:33:25+00:00'' then Some 1717212805000000
      else if s = ''2024-06-01T19:48:07+00:00'' then Some 1717271287000000
      else if s = ''2024-06-01T03:03:25+00:00'' then Some 1717211005000000
      else if s = ''1970-01-01T00:00:01+00:00'' then Some 1000000
      else None)"

definition example_data :: pyval where
  "example_data =
     PDict [(''results'',
             PDict [(''sunrise'', PStr ''2024-06-01T03:33:25+00:00''),
                    (''sunset'', PStr ''2024-06-01T19:48:07+00:00''),
                    (''solar_noon'', PStr ''1970-01-01T00:00:01+00:00''),
                    (''civil_twilight_begin'', PStr ''2024-06-01T03:03:25+00:00'')]),
            (''status'', PStr ''OK'')]"

definition example_group_actions :: "(key \<times> group_action_entry list) list" where
  "example_group_actions =
     [(Str_key ''sunrise'',
       [\<lparr>entry_group_action_id = 3, entry_offset = 60\<rparr>,
        \<lparr>entry_group_action_id = 5, entry_offset = - 600\<rparr>]),
      (Str_key ''sunset'', [\<lparr>entry_group_action_id = 4, entry_offset = 0\<rparr>]),
      (Str_key ''solar noon'', [\<lparr>entry_group_action_id = 6, entry_offset = 0\<rparr>])]"

definition example_bits :: "(key \<times> bit_entry list) list" where
  "example_bits =
     [(Enum_key SUNRISE, [\<lparr>entry_bit_id = 1, entry_action = ''set'', entry_bit_offset = 0\<rparr>])]"

definition example_order :: "key list" where
  "example_order = [Enum_key SUNRISE, Str_key ''sunset'', Str_key ''solar noon'', Str_key ''sunrise'']"

definition example_now :: time where
  "example_now = 1717200000000000"

definition example_plan :: execution_plan where
  "example_plan =
     [(1717271287000000,
       [\<lparr>task = Group_action_task 4, source_location = Str_key ''sunset'', source_offset = 0\<rparr>]),
      (1717216405000000,
       [\<lparr>task = Group_action_task 3, source_location = Str_key ''sunrise'',
         source_offset = 60\<rparr>])]"


subsection \<open>The order inside a plan-entry list\<close>

text \<open>
  The bit actions and the group actions a location has at fire time \<open>t\<close>, each kind in index
  order.
\<close>

definition bit_entries_at ::
  "(string \<Rightarrow> time option) \<Rightarrow> time \<Rightarrow> pyval \<Rightarrow> (key \<times> bit_entry list) list \<Rightarrow> time \<Rightarrow> key \<Rightarrow>
   plan_entry list" where
  "bit_entries_at parse now data bs t k =
     (case event_time parse data k of
        None \<Rightarrow> []
      | Some date \<Rightarrow>
          map snd (filter (\<lambda>a. due date now t (fst a)) (bit_actions k (get_list bs k))))"












section \<open>The scheduler's wake, stated on its own\<close>

subsection \<open>Failed requests\<close>

text \<open>
  An attempt fails when the body of the \<^verbatim>\<open>try\<close> raises: no response, a status code other than
  200, a body that is no JSON document, a document without \<^verbatim>\<open>status\<close> or with a status other
  than \<^verbatim>\<open>OK\<close>, or a document the planner raises on.
\<close>

definition attempt_fails :: "environment \<Rightarrow> time \<Rightarrow> astro \<Rightarrow> response \<Rightarrow> bool" where
  "attempt_fails env now s r = (case attempt env now s r of Inl e \<Rightarrow> True | Inr plan \<Rightarrow> False)"


text \<open>The failures that do not depend on the configured actions.\<close>

definition fetch_fails :: "response \<Rightarrow> bool" where
  "fetch_fails r =
     (case r of
        No_response \<Rightarrow> True
      | Response status_code body \<Rightarrow>
          status_code \<noteq> 200 \<or>
          (case body of
             None \<Rightarrow> True
           | Some data \<Rightarrow>
               (case subscript data ''status'' of
                  Inl e \<Rightarrow> True
                | Inr status \<Rightarrow> status \<noteq> PStr ''OK'')))"


text \<open>The time the requests number \<open>first\<close> to \<open>first + n - 1\<close> take, in microseconds.\<close>

definition request_time :: "environment \<Rightarrow> nat \<Rightarrow> nat \<Rightarrow> int" where
  "request_time env first n =
     int (sum_list (map (\<lambda>i. fst (http_get env (first + i))) [0..<n]))"


subsection \<open>The scan of the plan\<close>

text \<open>A fire time is near \<open>now\<close> when it is at most five minutes away, before or after.\<close>

definition near :: "time \<Rightarrow> time \<Rightarrow> bool" where
  "near now t = (\<bar>t - now\<bar> \<le> minutes 5)"


text \<open>A fire time more than five minutes after \<open>now\<close> and less than \<open>bound\<close> after it.\<close>

definition ahead_within :: "int \<Rightarrow> time \<Rightarrow> time \<Rightarrow> bool" where
  "ahead_within bound now t = (now < t \<and> minutes 5 < t - now \<and> t - now < bound)"


text \<open>
  The date the next wake is counted from: the earliest fire time more than five minutes and
  less than two days ahead, and \<open>tomorrow\<close> when there is none.
\<close>

definition next_wake_anchor :: "time \<Rightarrow> time \<Rightarrow> time list \<Rightarrow> time" where
  "next_wake_anchor now tomorrow dates =
     (if filter (ahead_within (days 2) now) dates = [] then tomorrow
      else Min (set (filter (ahead_within (days 2) now) dates)))"


text \<open>
  The same date without the bound of two days: the earliest fire time more than five minutes
  ahead.
\<close>

definition claimed_anchor :: "time \<Rightarrow> time \<Rightarrow> time list \<Rightarrow> time" where
  "claimed_anchor now tomorrow dates =
     (if filter (\<lambda>t. minutes 5 < t - now) dates = [] then tomorrow
      else Min (set (filter (\<lambda>t. minutes 5 < t - now) dates)))"


text \<open>
  The state after the scan: the entries of every near fire time are sent as basic actions, in
  the order of the plan, the clock advances by the time of these calls, and the plan keeps the
  fire times that are not near.
\<close>

definition scanned :: "environment \<Rightarrow> time \<Rightarrow> astro \<Rightarrow> astro" where
  "scanned env now s =
     s\<lparr>basic_actions :=
         basic_actions s @
         concat (map (\<lambda>p. map basic_action_of (snd p))
                   (filter (\<lambda>p. near now (fst p)) (execution_plan s))),
       clock :=
         clock s +
         int (sum_list (map (\<lambda>p. sum_list (map (call_duration env) (snd p)))
                          (filter (\<lambda>p. near now (fst p)) (execution_plan s)))),
       execution_plan := filter (\<lambda>p. \<not> near now (fst p)) (execution_plan s)\<rparr>"


subsection \<open>Examples\<close>

text \<open>
  Five requests that fail, each in its own way: no response, status code 500, a body that is no
  JSON document, a status other than \<^verbatim>\<open>OK\<close>, and a document without \<^verbatim>\<open>results\<close>. No request
  and no call takes any time.
\<close>

definition failing_http_get :: "nat \<Rightarrow> nat \<times> response" where
  "failing_http_get n =
     (if n = 0 then (0, No_response)
      else if n = 1 then (0, Response 500 None)
      else if n = 2 then (0, Response 200 None)
      else if n = 3 then (0, Response 200 (Some (PDict [(''status'', PStr ''INVALID_REQUEST'')])))
      else (0, Response 200 (Some (PDict [(''status'', PStr ''OK'')]))))"

definition failing_environment :: environment where
  "failing_environment =
     \<lparr>strptime = sample_strptime, http_get = failing_http_get,
      iteration_order = example_order, call_duration = (\<lambda>e. 0)\<rparr>"

definition example_today :: time where
  "example_today = 1717200000000000"

definition example_tomorrow :: time where
  "example_tomorrow = 1717286400000000"


text \<open>The plugin one minute after midnight, before the first request of the day.\<close>

definition example_astro :: astro where
  "example_astro =
     \<lparr>enabled = True, group_actions = example_group_actions, bits = example_bits,
      last_request_date = None, execution_plan = [], sleep_until = 0,
      clock = 1717200060000000, requests_made = 0, basic_actions = []\<rparr>"


text \<open>
  The plugin one minute after midnight with a plan of five fire times: ten minutes ago, two
  minutes ago, in five minutes, in three hours and in one hour. Every call takes one second.
\<close>

definition calling_environment :: environment where
  "calling_environment =
     \<lparr>strptime = sample_strptime, http_get = failing_http_get,
      iteration_order = example_order, call_duration = (\<lambda>e. 1000000)\<rparr>"

definition example_due_plan :: execution_plan where
  "example_due_plan =
     [(1717199460000000,
       [\<lparr>task = Group_action_task 9, source_location = Str_key ''sunset'', source_offset = 0\<rparr>]),
      (1717199940000000,
       [\<lparr>task = Bit_task ''set'' 1, source_location = Enum_key SUNRISE, source_offset = 0\<rparr>,
        \<lparr>task = Group_action_task 3, source_location = Str_key ''sunrise'', source_offset = 0\<rparr>]),
      (1717200360000000,
       [\<lparr>task = Bit_task ''clear'' 2, source_location = Enum_key SUNRISE, source_offset = 7\<rparr>]),
      (1717210860000000,
       [\<lparr>task = Group_action_task 4, source_location = Str_key ''sunrise'',
         source_offset = 180\<rparr>]),
      (1717203660000000,
       [\<lparr>task = Group_action_task 5, source_location = Str_key ''sunrise'',
         source_offset = 60\<rparr>])]"

definition example_due_astro :: astro where
  "example_due_astro =
     \<lparr>enabled = True, group_actions = example_group_actions, bits = example_bits,
      last_request_date = Some example_today, execution_plan = example_due_plan, sleep_until = 0,
      clock = 1717200060000000, requests_made = 1, basic_actions = []\<rparr>"


text \<open>The plugin one minute after midnight with one fire time, sunrise plus three days.\<close>

definition example_far_plan :: execution_plan where
  "example_far_plan =
     [(1717472005000000,
       [\<lparr>task = Group_action_task 3, source_location = Str_key ''sunrise'',
         source_offset = 4320\<rparr>])]"

definition example_far_astro :: astro where
  "example_far_astro =
     \<lparr>enabled = True, group_actions = example_group_actions, bits = example_bits,
      last_request_date = Some example_today, execution_plan = example_far_plan, sleep_until = 0,
      clock = 1717200060000000, requests_made = 1, basic_actions = []\<rparr>"


section \<open>Coordinate parsing\<close>

subsection \<open>The matcher lists exactly the splits of the text\<close>

lemma set_runs: "set (runs p s) = {(a, r). s = a @ r \<and> list_all p a}"
proof (induction s)
  case Nil
  then show ?case by auto
next
  case (Cons c s)
  show ?case
  proof (rule set_eqI, clarify)
    fix a r
    show "((a, r) \<in> set (runs p (c # s))) = ((a, r) \<in> {(a, r). c # s = a @ r \<and> list_all p a})"
      using Cons by (cases a) (auto simp: image_iff)
  qed
qed

lemma set_match_once:
  "set (match_atom (Once, p) s) = {(a, r). s = a @ r \<and> (\<exists>c. a = [c] \<and> p c)}"
  by (cases s) auto

lemma set_match_optional:
  "set (match_atom (Optional, p) s) = {(a, r). s = a @ r \<and> (a = [] \<or> (\<exists>c. a = [c] \<and> p c))}"
  by (cases s) auto

lemma set_match_star:
  "set (match_atom (Star_lazy, p) s) = {(a, r). s = a @ r \<and> list_all p a}"
  by (simp add: set_runs)

lemma runs_hd: "runs p s = ([], s) # tl (runs p s)"
  by (cases s) auto

lemma set_match_plus:
  "set (match_atom (Plus_greedy, p) s) = {(a, r). s = a @ r \<and> a \<noteq> [] \<and> list_all p a}"
proof -
  have d: "distinct (map fst (runs p s))" 
    by (induction s) (auto simp: distinct_map inj_on_def comp_def case_prod_unfold image_iff)
  have "set (runs p s) = insert ([], s) (set (tl (runs p s)))"
    using runs_hd[of p s] by (metis list.simps(15))
  moreover have "([], s) \<notin> set (tl (runs p s))"
  proof
    assume "([], s) \<in> set (tl (runs p s))"
    then have "[] \<in> set (map fst (tl (runs p s)))" by force
    with d runs_hd[of p s] show False
      by (metis distinct.simps(2) fst_conv list.simps(9))
  qed
  ultimately have "set (tl (runs p s)) = set (runs p s) - {([], s)}" by auto
  then show ?thesis by (auto simp: set_runs)
qed



lemma set_match_seq_Nil: "set (match_seq [] s) = {([], s)}"
  by simp

lemma set_match_seq_Cons:
  "set (match_seq (a # as) s) =
     {(x @ y, r') | x r y r'. (x, r) \<in> set (match_atom a s) \<and> (y, r') \<in> set (match_seq as r)}"
proof (rule set_eqI)
  fix z
  show "z \<in> set (match_seq (a # as) s) \<longleftrightarrow>
        z \<in> {(x @ y, r') | x r y r'. (x, r) \<in> set (match_atom a s) \<and> (y, r') \<in> set (match_seq as r)}"
    by (cases z) (force simp: image_iff)
qed


lemma in_match_seq_Cons:
  "(z, r') \<in> set (match_seq (a # as) s) \<longleftrightarrow>
     (\<exists>x r y. z = x @ y \<and> (x, r) \<in> set (match_atom a s) \<and> (y, r') \<in> set (match_seq as r))"
  unfolding set_match_seq_Cons by auto


lemma match_seq_ConsI:
  "(x, r) \<in> set (match_atom a s) \<Longrightarrow> (y, r') \<in> set (match_seq as r) \<Longrightarrow>
   (x @ y, r') \<in> set (match_seq (a # as) s)"
  unfolding in_match_seq_Cons by blast

lemma in_match_once:
  "(a, r) \<in> set (match_atom (Once, p) s) \<longleftrightarrow> s = a @ r \<and> (\<exists>c. a = [c] \<and> p c)"
  unfolding set_match_once by simp

lemma in_match_optional:
  "(a, r) \<in> set (match_atom (Optional, p) s) \<longleftrightarrow> s = a @ r \<and> (a = [] \<or> (\<exists>c. a = [c] \<and> p c))"
  unfolding set_match_optional by simp

lemma in_match_star:
  "(a, r) \<in> set (match_atom (Star_lazy, p) s) \<longleftrightarrow> s = a @ r \<and> list_all p a"
  unfolding set_match_star by simp

lemma in_match_plus:
  "(a, r) \<in> set (match_atom (Plus_greedy, p) s) \<longleftrightarrow> s = a @ r \<and> a \<noteq> [] \<and> list_all p a"
  unfolding set_match_plus by simp

lemma in_match_seq_Nil: "(z, r) \<in> set (match_seq [] s) \<longleftrightarrow> z = [] \<and> r = s"
  by auto

lemmas in_match = in_match_seq_Cons in_match_seq_Nil in_match_once in_match_optional
  in_match_star in_match_plus

lemma decimal_textI:
  "sg = [] \<or> sg = ''-'' \<Longrightarrow> whole \<noteq> [] \<Longrightarrow> list_all is_digit whole \<Longrightarrow>
   is_decimal_point c \<Longrightarrow> fr \<noteq> [] \<Longrightarrow> list_all is_digit fr \<Longrightarrow>
   decimal_text (sg @ whole @ [c] @ fr)"
  unfolding decimal_text_def by blast

lemma in_match_number:
  "(n, r) \<in> set (match_seq number_rx s) \<longleftrightarrow> s = n @ r \<and> decimal_text n"
proof
  assume "(n, r) \<in> set (match_seq number_rx s)"
  then have "\<exists>sg r1 y1. n = sg @ y1 \<and> (s = sg @ r1 \<and> (sg = [] \<or> (\<exists>c. sg = [c] \<and> c = CHR ''-''))) \<and>
     (\<exists>whole r2 y2. y1 = whole @ y2 \<and> (r1 = whole @ r2 \<and> whole \<noteq> [] \<and> list_all is_digit whole) \<and>
       (\<exists>p r3 y3. y2 = p @ y3 \<and> (r2 = p @ r3 \<and> (\<exists>c. p = [c] \<and> is_decimal_point c)) \<and>
         (\<exists>fr r4 y4. y3 = fr @ y4 \<and> (r3 = fr @ r4 \<and> fr \<noteq> [] \<and> list_all is_digit fr) \<and>
            y4 = [] \<and> r = r4)))"
    unfolding number_rx_def in_match .
  then obtain sg r1 y1 whole r2 y2 p r3 y3 fr where
    n0: "n = sg @ y1" "y1 = whole @ y2" "y2 = p @ y3" "y3 = fr @ []" and
    1: "s = sg @ r1" "sg = [] \<or> (\<exists>c. sg = [c] \<and> c = CHR ''-'')" and
    2: "r1 = whole @ r2" "whole \<noteq> []" "list_all is_digit whole" and
    3: "r2 = p @ r3" "\<exists>c. p = [c] \<and> is_decimal_point c" and
    4: "r3 = fr @ r" "fr \<noteq> []" "list_all is_digit fr"
    by blast
  have n: "n = sg @ whole @ p @ fr" using n0 by simp
  have "s = n @ r" using n 1 2 3 4 by simp
  moreover have "decimal_text n"
  proof -
    from 3 obtain c where c: "p = [c]" "is_decimal_point c" by blast
    from 1 have "sg = [] \<or> sg = ''-''" by auto
    from decimal_textI[OF this 2(2) 2(3) c(2) 4(2) 4(3)] show ?thesis
      using n c by simp
  qed
  ultimately show "s = n @ r \<and> decimal_text n" ..
next
  assume a: "s = n @ r \<and> decimal_text n"
  then obtain sg whole c fr where
    n: "n = sg @ whole @ [c] @ fr" and sg: "sg = [] \<or> sg = ''-''" and
    wh: "whole \<noteq> []" "list_all is_digit whole" and c: "is_decimal_point c" and
    fr: "fr \<noteq> []" "list_all is_digit fr"
    unfolding decimal_text_def by auto
  have s: "s = sg @ whole @ [c] @ fr @ r" using a n by simp
  have 1: "(sg, whole @ [c] @ fr @ r) \<in> set (match_atom (Optional, \<lambda>c. c = CHR ''-'') s)"
    unfolding in_match using s sg by auto
  have 2: "(whole, [c] @ fr @ r) \<in> set (match_atom (Plus_greedy, is_digit) (whole @ [c] @ fr @ r))"
    unfolding in_match using wh by simp
  have 3: "([c], fr @ r) \<in> set (match_atom (Once, is_decimal_point) ([c] @ fr @ r))"
    unfolding in_match using c by simp
  have 4: "(fr, r) \<in> set (match_atom (Plus_greedy, is_digit) (fr @ r))"
    unfolding in_match using fr by simp
  have 5: "([], r) \<in> set (match_seq [] r)" by simp
  have "(sg @ whole @ [c] @ fr @ [], r) \<in> set (match_seq number_rx s)"
    unfolding number_rx_def
    by (rule match_seq_ConsI[OF 1 match_seq_ConsI[OF 2 match_seq_ConsI[OF 3 match_seq_ConsI[OF 4 5]]]])
  then show "(n, r) \<in> set (match_seq number_rx s)" using n by simp
qed


lemma in_match_middle:
  "(m, r) \<in> set (match_seq middle_rx s) \<longleftrightarrow> s = m @ r \<and> middle_text m"
proof
  assume "(m, r) \<in> set (match_seq middle_rx s)"
  then have "\<exists>g1 r1 y1. m = g1 @ y1 \<and> (s = g1 @ r1 \<and> list_all is_any g1) \<and>
     (\<exists>p r2 y2. y1 = p @ y2 \<and> (r1 = p @ r2 \<and> (\<exists>c. p = [c] \<and> is_separator c)) \<and>
       (\<exists>g2 r3 y3. y2 = g2 @ y3 \<and> (r2 = g2 @ r3 \<and> list_all is_any g2) \<and> y3 = [] \<and> r = r3))"
    unfolding middle_rx_def in_match .
  then obtain g1 r1 y1 c r2 y2 g2 where
    m0: "m = g1 @ y1" "y1 = [c] @ y2" "y2 = g2 @ []" and
    1: "s = g1 @ r1" "list_all is_any g1" and
    2: "r1 = [c] @ r2" "is_separator c" and
    3: "r2 = g2 @ r" "list_all is_any g2"
    by blast
  have m: "m = g1 @ [c] @ g2" using m0 by simp
  have "s = m @ r" using m 1 2 3 by simp
  moreover have "middle_text m"
    unfolding middle_text_def using m 1 2 3 by blast
  ultimately show "s = m @ r \<and> middle_text m" ..
next
  assume a: "s = m @ r \<and> middle_text m"
  then obtain g1 c g2 where
    m: "m = g1 @ [c] @ g2" and g1: "list_all is_any g1" and c: "is_separator c" and
    g2: "list_all is_any g2"
    unfolding middle_text_def by blast
  have s: "s = g1 @ [c] @ g2 @ r" using a m by simp
  have 1: "(g1, [c] @ g2 @ r) \<in> set (match_atom (Star_lazy, is_any) s)"
    unfolding in_match using s g1 by simp
  have 2: "([c], g2 @ r) \<in> set (match_atom (Once, is_separator) ([c] @ g2 @ r))"
    unfolding in_match using c by simp
  have 3: "(g2, r) \<in> set (match_atom (Star_lazy, is_any) (g2 @ r))"
    unfolding in_match using g2 by simp
  have 4: "([], r) \<in> set (match_seq [] r)" by simp
  have "(g1 @ [c] @ g2 @ [], r) \<in> set (match_seq middle_rx s)"
    unfolding middle_rx_def
    by (rule match_seq_ConsI[OF 1 match_seq_ConsI[OF 2 match_seq_ConsI[OF 3 4]]])
  then show "(m, r) \<in> set (match_seq middle_rx s)" using m by simp
qed

lemma in_concat_map_pair:
  "z \<in> set (concat (map (\<lambda>(a, b). f a b) xs)) \<longleftrightarrow> (\<exists>a b. (a, b) \<in> set xs \<and> z \<in> set (f a b))"
  by (induction xs) auto

lemma in_re_matches:
  "(g1, g2) \<in> set (re_matches s) \<longleftrightarrow>
     (\<exists>m e. s = g1 @ m @ g2 @ e \<and> decimal_text g1 \<and> middle_text m \<and> decimal_text g2 \<and> at_end e)"
proof -
  have "(g1, g2) \<in> set (re_matches s) \<longleftrightarrow>
        (\<exists>a r1. (a, r1) \<in> set (match_seq number_rx s) \<and>
          (\<exists>m r2. (m, r2) \<in> set (match_seq middle_rx r1) \<and>
            (\<exists>b e. (b, e) \<in> set (match_seq number_rx r2) \<and>
               (g1, g2) \<in> set (if at_end e then [(a, b)] else []))))"
    unfolding re_matches_def in_concat_map_pair ..
  also have "\<dots> \<longleftrightarrow>
        (\<exists>r1 m r2 e. (g1, r1) \<in> set (match_seq number_rx s) \<and>
           (m, r2) \<in> set (match_seq middle_rx r1) \<and> (g2, e) \<in> set (match_seq number_rx r2) \<and>
           at_end e)"
    by (simp split: if_splits) blast
  also have "\<dots> \<longleftrightarrow>
     (\<exists>m e. s = g1 @ m @ g2 @ e \<and> decimal_text g1 \<and> middle_text m \<and> decimal_text g2 \<and> at_end e)"
    unfolding in_match_number in_match_middle by blast
  finally show ?thesis .
qed

lemma re_matches_coordinate_text: "re_matches s \<noteq> [] \<longleftrightarrow> coordinate_text s"
proof -
  have "re_matches s \<noteq> [] \<longleftrightarrow> (\<exists>g1 g2. (g1, g2) \<in> set (re_matches s))"
    by (cases "re_matches s") auto
  also have "\<dots> \<longleftrightarrow> coordinate_text s"
    unfolding in_re_matches coordinate_text_def by blast
  finally show ?thesis .
qed


lemma is_digit_not_punct:
  "is_digit c \<Longrightarrow> c \<noteq> CHR '','' \<and> c \<noteq> CHR ''.'' \<and> c \<noteq> CHR ''-''"
  by (auto simp: is_digit_def)

lemma comma_to_point_digits: "list_all is_digit ds \<Longrightarrow> comma_to_point ds = ds"
  by (induction ds) (auto simp: comma_to_point_def dest: is_digit_not_punct)

lemma comma_to_point_append: "comma_to_point (a @ b) = comma_to_point a @ comma_to_point b"
  by (simp add: comma_to_point_def)

lemma comma_to_point_decimal_point:
  "is_decimal_point c \<Longrightarrow> comma_to_point [c] = ''.''"
  by (auto simp: comma_to_point_def is_decimal_point_def)

lemma takeWhile_digits:
  "list_all is_digit ds \<Longrightarrow> takeWhile is_digit (ds @ CHR ''.'' # r) = ds"
  by (induction ds) (auto simp: is_digit_def)

lemma dropWhile_digits:
  "list_all is_digit ds \<Longrightarrow> dropWhile is_digit (ds @ CHR ''.'' # r) = CHR ''.'' # r"
  by (induction ds) (auto simp: is_digit_def)

lemma py_float_unsigned:
  assumes "whole \<noteq> []" "list_all is_digit whole" "fr \<noteq> []" "list_all is_digit fr"
  shows "py_float (whole @ CHR ''.'' # fr) =
           Inr (of_nat (digits_value whole) + of_nat (digits_value fr) / 10 ^ length fr)"
proof -
  from assms obtain d ds where w: "whole = d # ds" "is_digit d" by (cases whole) auto
  then have "hd (whole @ CHR ''.'' # fr) \<noteq> CHR ''-''" using is_digit_not_punct by auto
  then show ?thesis
    using assms by (simp add: py_float_def takeWhile_digits dropWhile_digits)
qed

lemma py_float_signed:
  assumes "whole \<noteq> []" "list_all is_digit whole" "fr \<noteq> []" "list_all is_digit fr"
  shows "py_float (CHR ''-'' # whole @ CHR ''.'' # fr) =
           Inr (- (of_nat (digits_value whole) + of_nat (digits_value fr) / 10 ^ length fr))"
  using assms by (simp add: py_float_def takeWhile_digits dropWhile_digits)

lemma py_float_decimal_text:
  assumes "decimal_text g"
  shows "\<exists>q. py_float (comma_to_point g) = Inr q"
proof -
  from assms obtain sg whole c fr where
    g: "g = sg @ whole @ [c] @ fr" and sg: "sg = [] \<or> sg = ''-''" and
    wh: "whole \<noteq> []" "list_all is_digit whole" and c: "is_decimal_point c" and
    fr: "fr \<noteq> []" "list_all is_digit fr"
    unfolding decimal_text_def by blast
  have "comma_to_point (whole @ [c] @ fr) =
          comma_to_point whole @ comma_to_point [c] @ comma_to_point fr"
    by (simp only: comma_to_point_append)
  then have body: "comma_to_point (whole @ [c] @ fr) = whole @ CHR ''.'' # fr"
    using wh fr c
    by (simp only: comma_to_point_digits comma_to_point_decimal_point) simp
  from sg show ?thesis
  proof
    assume "sg = []"
    then have "comma_to_point g = whole @ CHR ''.'' # fr" using g body by simp
    then show ?thesis using py_float_unsigned[OF wh fr] by simp
  next
    assume "sg = ''-''"
    then have "comma_to_point g = CHR ''-'' # whole @ CHR ''.'' # fr"
      using g body by (simp add: comma_to_point_def)
    then show ?thesis using py_float_signed[OF wh fr] by simp
  qed
qed

lemma decimal_text_chars:
  "decimal_text n \<Longrightarrow> list_all (\<lambda>c. is_digit c \<or> is_decimal_point c \<or> c = CHR ''-'') n"
  unfolding decimal_text_def by (auto simp: list_all_iff)

lemma not_claimed_example: "\<not> claimed_coordinate_text ''1.5x;2.5''"
proof
  assume "claimed_coordinate_text ''1.5x;2.5''"
  then obtain n1 sep g n2 where
    s: "''1.5x;2.5'' = n1 @ [sep] @ g @ n2" and n1: "decimal_text n1" and sep: "is_separator sep"
    unfolding claimed_coordinate_text_def by blast
  have ch: "list_all (\<lambda>c. is_digit c \<or> is_decimal_point c \<or> c = CHR ''-'') n1"
    using n1 by (rule decimal_text_chars)
  from s ch sep show False
    by (auto simp: append_eq_Cons_conv Cons_eq_append_conv is_digit_def is_decimal_point_def is_separator_def)
qed


lemmas coordinate_eval =
  from_string_def re_matches_def number_rx_def middle_rx_def is_digit_def is_any_def
  is_separator_def is_decimal_point_def at_end_def py_float_def comma_to_point_def
  digits_value_def digit_value_def

subsection \<open>Claim C8\<close>

text \<open>
  C8, as the code has it. \<^verbatim>\<open>Coordinates.from_string\<close> maps the empty string to (0.0, 0.0).
  Any other text is accepted exactly when it is: a sign-optional decimal (decimal point a dot or a
  comma), then any characters but line feeds, one separator out of \<^verbatim>\<open>; , /\<close>, again any
  characters but line feeds, a second sign-optional decimal, and then the end of the text or one
  final line feed. On such a text the two numbers are the groups of the first match; each has its
  comma replaced by a dot before \<^verbatim>\<open>float\<close> converts it, and the conversion never fails.
  On every other text the call raises \<^verbatim>\<open>ValueError\<close>.
\<close>

theorem from_string_characterised:
  "from_string [] = Inr \<lparr>latitude = 0, longitude = 0\<rparr> \<and>
   (s \<noteq> [] \<and> coordinate_text s \<longrightarrow>
      (\<exists>g1 g2 lat lon. (g1, g2) = hd (re_matches s) \<and> decimal_text g1 \<and> decimal_text g2 \<and>
         py_float (comma_to_point g1) = Inr lat \<and> py_float (comma_to_point g2) = Inr lon \<and>
         from_string s = Inr \<lparr>latitude = lat, longitude = lon\<rparr>)) \<and>
   (s \<noteq> [] \<and> \<not> coordinate_text s \<longrightarrow> from_string s = Inl ValueError)"
proof (intro conjI impI)
  show "from_string [] = Inr \<lparr>latitude = 0, longitude = 0\<rparr>" by (simp add: from_string_def)
next
  assume a: "s \<noteq> [] \<and> coordinate_text s"
  then have "re_matches s \<noteq> []" by (simp add: re_matches_coordinate_text)
  then obtain g1 g2 rest where m: "re_matches s = (g1, g2) # rest"
    by (cases "re_matches s") auto
  then have "(g1, g2) \<in> set (re_matches s)" by simp
  then have d: "decimal_text g1" "decimal_text g2" unfolding in_re_matches by blast+
  from py_float_decimal_text[OF d(1)] obtain lat where lat: "py_float (comma_to_point g1) = Inr lat" ..
  from py_float_decimal_text[OF d(2)] obtain lon where lon: "py_float (comma_to_point g2) = Inr lon" ..
  have "from_string s = Inr \<lparr>latitude = lat, longitude = lon\<rparr>"
    using a m lat lon by (simp add: from_string_def)
  with m d lat lon show "\<exists>g1 g2 lat lon. (g1, g2) = hd (re_matches s) \<and> decimal_text g1 \<and> decimal_text g2 \<and>
         py_float (comma_to_point g1) = Inr lat \<and> py_float (comma_to_point g2) = Inr lon \<and>
         from_string s = Inr \<lparr>latitude = lat, longitude = lon\<rparr>"
    by auto
next
  assume a: "s \<noteq> [] \<and> \<not> coordinate_text s"
  then have "re_matches s = []" using re_matches_coordinate_text by blast
  with a show "from_string s = Inl ValueError" by (simp add: from_string_def)
qed


text \<open>
  The theorem at two texts: a comma as decimal point in both numbers with a slash between them, and
  a text whose numbers have no decimal point.
\<close>

theorem from_string_characterised_witness:
  "coordinate_text ''1,5 / -2,50'' \<and>
   from_string ''1,5 / -2,50'' = Inr \<lparr>latitude = 3 / 2, longitude = - (5 / 2)\<rparr> \<and>
   \<not> coordinate_text ''51;3'' \<and>
   from_string ''51;3'' = Inl ValueError"
proof -
  have m1: "re_matches ''1,5 / -2,50'' \<noteq> []" by (simp add: coordinate_eval)
  have m2: "re_matches ''51;3'' = []" by (simp add: coordinate_eval)
  have c1: "coordinate_text ''1,5 / -2,50''" using m1 by (simp add: re_matches_coordinate_text)
  have c2: "\<not> coordinate_text ''51;3''" using m2 re_matches_coordinate_text by blast
  have v: "from_string ''1,5 / -2,50'' = Inr \<lparr>latitude = 3 / 2, longitude = - (5 / 2)\<rparr>"
    by (simp add: coordinate_eval)
  from c1 c2 v from_string_characterised[of "''51;3''"] show ?thesis by simp
qed

text \<open>
  C8 as stated fails: the text \<^verbatim>\<open>1.5x;2.5\<close> has a character between the first number and the
  separator, so it is not of the form number, separator, garbage, number; the code accepts it.
\<close>

theorem from_string_claimed_pattern_counterexample:
  "from_string ''1.5x;2.5'' = Inr \<lparr>latitude = 3 / 2, longitude = 5 / 2\<rparr> \<and>
   \<not> claimed_coordinate_text ''1.5x;2.5''"
proof -
  have "from_string ''1.5x;2.5'' = Inr \<lparr>latitude = 3 / 2, longitude = 5 / 2\<rparr>"
    by (simp add: coordinate_eval)
  with not_claimed_example show ?thesis by simp
qed

section \<open>Migration and validation\<close>

lemmas config_eval =
  coordinate_eval dict_get_def subscript_def determine_configuration_version_def
  ConfigurationVersion_of_def SunLocation_of_def ValidationJobAction_of_def enum_call_def
  sun_locations_def or_zero_def coordinates_from_def migrate_configuration_v1_def
  migrate_lists_def migrate_configuration_v2_def migrate_configuration_v3_def
  group_action_job_of_def validation_job_of_def in_SunLocation_def coerce_id_def
  verify_configuration_def parse_configuration_def py_int_of_str_def max_str_digits_def
  strip_def is_space_def Let_def

subsection \<open>Version 1.0\<close>

lemma int_field_dict_get: "int_field d k dflt = Some n \<Longrightarrow> dict_get d k (PInt dflt) = PInt n"
  by (auto simp: int_field_def dict_get_def split: option.splits pyval.splits)

lemma v1_roles_loop_ints:
  "v1_roles_loop (map int_tuple rs) (PInt off) gid (gj, vj) =
     Inr (gj @ concat (map (\<lambda>r. role_group_action_jobs gid (code_role off r)) rs),
          vj @ concat (map (\<lambda>r. role_validation_jobs (code_role off r)) rs))"
proof (induction rs arbitrary: gj vj)
  case Nil
  then show ?case by simp
next
  case (Cons r rs)
  obtain b start stop acc where r: "r = (b, start, stop, acc)" by (cases r) auto
  show ?case
    unfolding r by (simp add: Cons.IH Let_def)
qed

lemma migrate_v1_valid:
  assumes "valid_v1 d c h cv na a b off"
  shows "migrate_configuration_v1 d =
           Inr \<lparr>coordinates = Some c,
                group_action_jobs =
                  concat (map (role_group_action_jobs (dict_get d ''group_action'' (PInt (- 1))))
                            (v1_roles h cv na a b off)),
                validation_jobs = concat (map role_validation_jobs (v1_roles h cv na a b off)),
                version = V3_0\<rparr>"
proof -
  from assms obtain s where
    v: "determine_configuration_version d = Inr V1_0" and
    s: "map_of d ''coordinates'' = Some (PStr s)" "s \<noteq> []" "from_string s = Inr c" and
    f: "dict_get d ''horizon_bit'' (PInt (- 1)) = PInt h"
       "dict_get d ''civil_bit'' (PInt (- 1)) = PInt cv"
       "dict_get d ''nautical_bit'' (PInt (- 1)) = PInt na"
       "dict_get d ''astronomical_bit'' (PInt (- 1)) = PInt a"
       "dict_get d ''bright_bit'' (PInt (- 1)) = PInt b"
       "dict_get d ''bright_offset'' (PInt 0) = PInt off"
    unfolding valid_v1_def by (auto dest: int_field_dict_get)
  have c: "dict_get d ''coordinates'' PNone = PStr s" using s by (simp add: dict_get_def)
  let ?rs = "[(h, SUNRISE, SUNSET, False), (cv, CIVIL_DAWN, CIVIL_DUSK, False),
              (na, NAUTICAL_DAWN, NAUTICAL_DUSK, False),
              (a, ASTRONOMICAL_DAWN, ASTRONOMICAL_DUSK, False), (b, SUNRISE, SUNSET, True)]"
  have loop: "v1_roles_loop
                [(PInt h, SUNRISE, SUNSET, False), (PInt cv, CIVIL_DAWN, CIVIL_DUSK, False),
                 (PInt na, NAUTICAL_DAWN, NAUTICAL_DUSK, False),
                 (PInt a, ASTRONOMICAL_DAWN, ASTRONOMICAL_DUSK, False),
                 (PInt b, SUNRISE, SUNSET, True)] (PInt off) gid ([], []) =
              Inr (concat (map (role_group_action_jobs gid) (v1_roles h cv na a b off)),
                   concat (map role_validation_jobs (v1_roles h cv na a b off)))" for gid
    using v1_roles_loop_ints[of ?rs off gid "[]" "[]"]
    by (simp add: v1_roles_def)
  show ?thesis
    unfolding migrate_configuration_v1_def
    by (simp add: v c f s coordinates_from_def loop del: v1_roles_loop.simps)
qed



lemma valid_example_v1:
  "valid_v1 example_v1 \<lparr>latitude = 5106463 / 100000, longitude = 3737539 / 1000000\<rparr>
     (- 1) (- 1) (- 1) 2 1 60"
  unfolding valid_v1_def by (simp add: example_v1_def int_field_def config_eval)

lemma valid_example_v1_no_automation:
  "valid_v1 example_v1_no_automation
     \<lparr>latitude = 5106463 / 100000, longitude = 3737539 / 1000000\<rparr> (- 1) (- 1) (- 1) 2 1 60"
  unfolding valid_v1_def
  by (simp add: example_v1_no_automation_def example_v1_def int_field_def config_eval)

text \<open>
  C1. For a valid version-1.0 document the migration yields, in the order horizon, civil, nautical,
  astronomical, bright: for every role whose bit is at least 0 one SET validation job at the
  role's dawn or sunrise followed by one CLEAR job at its dusk or sunset, and two group action
  jobs with the document's \<^verbatim>\<open>group_action\<close> (-1 when absent) at the same two events. The
  bright role has the offsets \<^verbatim>\<open>+bright_offset\<close> and \<^verbatim>\<open>-bright_offset\<close>, the others
  0. A role whose bit is negative contributes nothing.
\<close>

theorem migrate_configuration_v1_roles:
  assumes "valid_v1 d c horizon civil nautical astronomical bright bright_offset"
  shows "migrate_configuration_v1 d =
           Inr \<lparr>coordinates = Some c,
                group_action_jobs =
                  (let automation = dict_get d ''group_action'' (PInt (- 1)) in
                   role_group_action_jobs automation (horizon, SUNRISE, SUNSET, 0, 0) @
                   role_group_action_jobs automation (civil, CIVIL_DAWN, CIVIL_DUSK, 0, 0) @
                   role_group_action_jobs automation (nautical, NAUTICAL_DAWN, NAUTICAL_DUSK, 0, 0) @
                   role_group_action_jobs automation
                     (astronomical, ASTRONOMICAL_DAWN, ASTRONOMICAL_DUSK, 0, 0) @
                   role_group_action_jobs automation
                     (bright, SUNRISE, SUNSET, bright_offset, - bright_offset)),
                validation_jobs =
                  role_validation_jobs (horizon, SUNRISE, SUNSET, 0, 0) @
                  role_validation_jobs (civil, CIVIL_DAWN, CIVIL_DUSK, 0, 0) @
                  role_validation_jobs (nautical, NAUTICAL_DAWN, NAUTICAL_DUSK, 0, 0) @
                  role_validation_jobs (astronomical, ASTRONOMICAL_DAWN, ASTRONOMICAL_DUSK, 0, 0) @
                  role_validation_jobs (bright, SUNRISE, SUNSET, bright_offset, - bright_offset),
                version = V3_0\<rparr>"
  using migrate_v1_valid[OF assms]
  by (simp add: v1_roles_def Let_def
        del: role_group_action_jobs.simps role_validation_jobs.simps)

text \<open>
  The theorem at the document of \<^verbatim>\<open>test_calculate_mapping_v1_with_multiple\<close>, with the
  configuration the test expects.
\<close>

theorem migrate_configuration_v1_roles_witness:
  "valid_v1 example_v1 \<lparr>latitude = 5106463 / 100000, longitude = 3737539 / 1000000\<rparr>
     (- 1) (- 1) (- 1) 2 1 60 \<and>
   migrate_configuration_v1 example_v1 =
     Inr \<lparr>coordinates = Some \<lparr>latitude = 5106463 / 100000, longitude = 3737539 / 1000000\<rparr>,
          group_action_jobs =
            [\<lparr>group_action_id = PInt 0, ga_sun_location = Member ASTRONOMICAL_DAWN,
              ga_offset = PInt 0\<rparr>,
             \<lparr>group_action_id = PInt 0, ga_sun_location = Member ASTRONOMICAL_DUSK,
              ga_offset = PInt 0\<rparr>,
             \<lparr>group_action_id = PInt 0, ga_sun_location = Member SUNRISE, ga_offset = PInt 60\<rparr>,
             \<lparr>group_action_id = PInt 0, ga_sun_location = Member SUNSET,
              ga_offset = PInt (- 60)\<rparr>],
          validation_jobs =
            [\<lparr>action = SET, bit_id = PInt 2, vj_sun_location = Member ASTRONOMICAL_DAWN,
              vj_offset = PInt 0\<rparr>,
             \<lparr>action = CLEAR, bit_id = PInt 2, vj_sun_location = Member ASTRONOMICAL_DUSK,
              vj_offset = PInt 0\<rparr>,
             \<lparr>action = SET, bit_id = PInt 1, vj_sun_location = Member SUNRISE,
              vj_offset = PInt 60\<rparr>,
             \<lparr>action = CLEAR, bit_id = PInt 1, vj_sun_location = Member SUNSET,
              vj_offset = PInt (- 60)\<rparr>],
          version = V3_0\<rparr>"
proof -
  have g: "dict_get example_v1 ''group_action'' (PInt (- 1)) = PInt 0"
    by (simp add: example_v1_def dict_get_def)
  show ?thesis
    using valid_example_v1 migrate_configuration_v1_roles[OF valid_example_v1]
    by (simp add: g Let_def)
qed

subsection \<open>Claim C10\<close>

lemma verify_group_action_jobs_negative:
  "group_action_id j = PInt g \<Longrightarrow> g < 0 \<Longrightarrow> verify_group_action_jobs (j # rest) = Inl ValueError"
  by (simp add: coerce_id_def)

lemma v1_group_action_jobs_hd:
  assumes "0 \<le> h \<or> 0 \<le> cv \<or> 0 \<le> na \<or> 0 \<le> a \<or> 0 \<le> b"
  shows "\<exists>j rest. concat (map (role_group_action_jobs gid) (v1_roles h cv na a b off)) = j # rest \<and>
           group_action_id j = gid"
  using assms by (auto simp: v1_roles_def)


text \<open>
  C10. A valid version-1.0 document in which a bit role is enabled (its bit is at least 0) while
  \<^verbatim>\<open>group_action\<close> is absent or a negative int is rejected: the migration gives every
  group action job the id (-1 when absent), and the validation raises \<^verbatim>\<open>ValueError\<close> at the
  first of them. The factory keeps what it held.
\<close>

theorem parse_v1_negative_automation:
  assumes "valid_v1 d c h cv na a b off"
    and "0 \<le> h \<or> 0 \<le> cv \<or> 0 \<le> na \<or> 0 \<le> a \<or> 0 \<le> b"
    and "int_field d ''group_action'' (- 1) = Some g" and "g < 0"
  shows "parse_configuration sem factory d = (Inl ValueError, factory)"
proof -
  have g: "dict_get d ''group_action'' (PInt (- 1)) = PInt g"
    using assms(3) by (rule int_field_dict_get)
  from v1_group_action_jobs_hd[OF assms(2), of "PInt g" off] obtain j rest where
    jobs: "concat (map (role_group_action_jobs (PInt g)) (v1_roles h cv na a b off)) = j # rest"
      "group_action_id j = PInt g" by blast
  have v: "determine_configuration_version d = Inr V1_0" using assms(1) by (simp add: valid_v1_def)
  have "verify_configuration sem
          \<lparr>coordinates = Some c,
           group_action_jobs = j # rest,
           validation_jobs = concat (map role_validation_jobs (v1_roles h cv na a b off)),
           version = V3_0\<rparr> = Inl ValueError"
    using verify_group_action_jobs_negative[OF jobs(2) assms(4), of rest]
    by (simp add: verify_configuration_def)
  then show ?thesis
    unfolding parse_configuration_def
    using migrate_v1_valid[OF assms(1)] v g jobs(1) by simp
qed


text \<open>The theorem at the example document that has lost its \<^verbatim>\<open>group_action\<close>.\<close>

theorem parse_v1_negative_automation_witness:
  "valid_v1 example_v1_no_automation
     \<lparr>latitude = 5106463 / 100000, longitude = 3737539 / 1000000\<rparr> (- 1) (- 1) (- 1) 2 1 60 \<and>
   int_field example_v1_no_automation ''group_action'' (- 1) = Some (- 1) \<and>
   parse_configuration Non_member_raises \<lparr>config = None\<rparr> example_v1_no_automation =
     (Inl ValueError, \<lparr>config = None\<rparr>)"
proof -
  have f: "int_field example_v1_no_automation ''group_action'' (- 1) = Some (- 1)"
    by (simp add: example_v1_no_automation_def example_v1_def int_field_def)
  have b: "(0::int) \<le> - 1 \<or> (0::int) \<le> - 1 \<or> (0::int) \<le> - 1 \<or> (0::int) \<le> 2 \<or> (0::int) \<le> 1"
    by simp
  have n: "(- 1 :: int) < 0" by simp
  from parse_v1_negative_automation[OF valid_example_v1_no_automation b f n]
    valid_example_v1_no_automation f
  show ?thesis by simp
qed

subsection \<open>Claim C7\<close>

text \<open>
  C7. When \<^verbatim>\<open>parse_configuration\<close> raises, whatever the error, the factory holds the
  configuration it held before. When it returns a configuration, the version was detected, the
  migration of that version succeeded, the validation of its result succeeded, and only then was
  the validated configuration stored.
\<close>

theorem parse_configuration_factory:
  "(\<forall>e. fst (parse_configuration sem factory d) = Inl e \<longrightarrow>
        snd (parse_configuration sem factory d) = factory) \<and>
   (\<forall>c. fst (parse_configuration sem factory d) = Inr c \<longrightarrow>
        snd (parse_configuration sem factory d) = factory\<lparr>config := Some c\<rparr> \<and>
        (\<exists>ver m. determine_configuration_version d = Inr ver \<and>
           (case ver of V1_0 \<Rightarrow> migrate_configuration_v1 d
                      | V2_0 \<Rightarrow> migrate_configuration_v2 d
                      | V3_0 \<Rightarrow> migrate_configuration_v3 d) = Inr m \<and>
           verify_configuration sem m = Inr c))"
proof -
  show ?thesis
  proof (cases "determine_configuration_version d")
    case (Inl e)
    then show ?thesis by (simp add: parse_configuration_def)
  next
    case (Inr ver)
    let ?m = "case ver of V1_0 \<Rightarrow> migrate_configuration_v1 d
                        | V2_0 \<Rightarrow> migrate_configuration_v2 d
                        | V3_0 \<Rightarrow> migrate_configuration_v3 d"
    show ?thesis
    proof (cases ?m)
      case (Inl e)
      with Inr show ?thesis by (simp add: parse_configuration_def)
    next
      case m: (Inr m)
      show ?thesis
      proof (cases "verify_configuration sem m")
        case (Inl e)
        with Inr m show ?thesis by (simp add: parse_configuration_def)
      next
        case c: (Inr c)
        with Inr m show ?thesis by (simp add: parse_configuration_def)
      qed
    qed
  qed
qed


text \<open>
  The theorem at a factory that holds a configuration: a document of an unknown version and a
  document whose group action id is negative both leave it as it was.
\<close>

theorem parse_configuration_factory_witness:
  "fst (parse_configuration Non_member_raises \<lparr>config = Some example_previous\<rparr>
          example_unknown_version) = Inl ValueError \<and>
   snd (parse_configuration Non_member_raises \<lparr>config = Some example_previous\<rparr>
          example_unknown_version) = \<lparr>config = Some example_previous\<rparr> \<and>
   fst (parse_configuration Non_member_raises \<lparr>config = Some example_previous\<rparr>
          example_v1_no_automation) = Inl ValueError \<and>
   snd (parse_configuration Non_member_raises \<lparr>config = Some example_previous\<rparr>
          example_v1_no_automation) = \<lparr>config = Some example_previous\<rparr>"
proof -
  have 1: "fst (parse_configuration Non_member_raises \<lparr>config = Some example_previous\<rparr>
                  example_unknown_version) = Inl ValueError"
    by (simp add: example_unknown_version_def config_eval)
  have 2: "fst (parse_configuration Non_member_raises \<lparr>config = Some example_previous\<rparr>
                  example_v1_no_automation) = Inl ValueError"
    by (simp add: example_v1_no_automation_def example_v1_def config_eval)
  from 1 2
    parse_configuration_factory[of Non_member_raises "\<lparr>config = Some example_previous\<rparr>"
      example_unknown_version]
    parse_configuration_factory[of Non_member_raises "\<lparr>config = Some example_previous\<rparr>"
      example_v1_no_automation]
  show ?thesis by simp
qed

subsection \<open>Claim C2\<close>

text \<open>
  The interpreter's digit limit: a str of more than 4300 digits raises \<^verbatim>\<open>ValueError\<close> in
  \<^verbatim>\<open>int(...)\<close>, so it is no offset, and a list entry with such an offset maps to no job.
\<close>

lemma digit_no_blank: "is_digit c \<Longrightarrow> \<not> is_space c"
  by (auto simp: is_digit_def is_space_def)

lemma py_int_of_str_long:
  assumes "list_all is_digit ds" and "max_str_digits < length ds"
  shows "py_int_of_str ds = Inl ValueError"
proof -
  from assms(2) have ne: "ds \<noteq> []" by auto
  have hd: "is_digit (hd ds)" and last: "is_digit (last ds)"
    using assms(1) ne by (simp_all add: list_all_iff)
  have d1: "dropWhile is_space ds = ds"
    using hd ne by (cases ds) (simp_all add: digit_no_blank)
  have "hd (rev ds) = last ds" using ne by (simp add: hd_rev)
  with last have r: "\<not> is_space (hd (rev ds))" by (simp add: digit_no_blank)
  have d2: "dropWhile is_space (rev ds) = rev ds"
  proof (cases "rev ds")
    case Nil
    then show ?thesis by simp
  next
    case (Cons c cs)
    with r have "\<not> is_space c" by simp
    then show ?thesis unfolding Cons by simp
  qed
  have s: "strip ds = ds"
    by (simp add: strip_def d1 d2)
  have sign: "hd ds \<noteq> CHR ''-''" "hd ds \<noteq> CHR ''+''"
    using hd by (auto simp: is_digit_def)
  have f: "filter (\<lambda>c. c \<noteq> CHR ''_'') ds = ds"
    using assms(1) by (auto simp: filter_id_conv list_all_iff is_digit_def)
  show ?thesis
    using assms(2) by (simp add: py_int_of_str_def Let_def s sign ne f)
qed

lemma offset_of_long:
  assumes "list_all is_digit ds" and "max_str_digits < length ds"
  shows "offset_of (PStr ds) = None"
  using py_int_of_str_long[OF assms] assms(2) by (auto simp: offset_of_def)

lemma basic_entry_long_offset:
  assumes "list_all is_digit ds" and "max_str_digits < length ds"
  shows "basic_entry (PDict [(''group_action_id'', gid), (''sun_location'', loc),
                             (''offset'', PStr ds)]) = None"
  using offset_of_long[OF assms] by (simp add: basic_entry_def split: option.splits)

lemma offset_of_py_int: "offset_of v = Some n \<Longrightarrow> py_int (or_zero v) = Inr n"
  by (cases v) (auto simp: offset_of_def or_zero_def split: if_splits sum.splits)

lemma token_member_SunLocation_of: "token_member v = Some m \<Longrightarrow> SunLocation_of v = Inr m"
  by (cases v) (auto simp: token_member_def SunLocation_of_def enum_call_def)

lemma token_action_ValidationJobAction_of:
  "token_action v = Some a \<Longrightarrow> ValidationJobAction_of v = Inr a"
  by (cases v) (auto simp: token_action_def ValidationJobAction_of_def enum_call_def)

lemma basic_entry_job: "basic_entry e = Some job \<Longrightarrow> group_action_job_of e = Inr job"
  by (auto simp: basic_entry_def group_action_job_of_def subscript_def
           dest!: offset_of_py_int token_member_SunLocation_of
           split: pyval.splits option.splits)

lemma advanced_entry_job: "advanced_entry e = Some job \<Longrightarrow> validation_job_of e = Inr job"
  by (auto simp: advanced_entry_def validation_job_of_def subscript_def
           dest!: offset_of_py_int token_member_SunLocation_of token_action_ValidationJobAction_of
           split: pyval.splits option.splits)

lemma map_result_all:
  assumes "\<And>x y. f x = Some y \<Longrightarrow> g x = Inr y"
  shows "map f xs = map Some ys \<Longrightarrow> map_result g xs = Inr ys"
proof (induction xs arbitrary: ys)
  case Nil
  then show ?case by simp
next
  case (Cons x xs)
  then obtain y ys' where ys: "ys = y # ys'" "f x = Some y" "map f xs = map Some ys'"
    by (cases ys) auto
  with Cons.IH[of ys'] assms[of x y] show ?case by simp
qed

lemma migrate_lists_valid:
  assumes "valid_lists d c gjobs vjobs"
  shows "migrate_lists d =
           Inr \<lparr>coordinates = Some c, group_action_jobs = gjobs, validation_jobs = vjobs,
                version = V3_0\<rparr>"
proof -
  from assms obtain s basic advanced where
    s: "map_of d ''coordinates'' = Some (PStr s)" "s \<noteq> []" "from_string s = Inr c" and
    b: "dict_get d ''basic_configuration'' (PList []) = PList basic"
       "map basic_entry basic = map Some gjobs" and
    a: "dict_get d ''advanced_configuration'' (PList []) = PList advanced"
       "map advanced_entry advanced = map Some vjobs"
    unfolding valid_lists_def by blast
  have c: "dict_get d ''coordinates'' PNone = PStr s" using s by (simp add: dict_get_def)
  have g: "map_result group_action_job_of basic = Inr gjobs"
    by (rule map_result_all[where f = basic_entry, OF basic_entry_job b(2)])
  have v: "map_result validation_job_of advanced = Inr vjobs"
    by (rule map_result_all[where f = advanced_entry, OF advanced_entry_job a(2)])
  show ?thesis
    unfolding migrate_lists_def by (simp add: c s b(1) a(1) g v coordinates_from_def)
qed


text \<open>
  C2. For a valid document of version 2.0 or 3.0 the migration maps the entries of
  \<^verbatim>\<open>basic_configuration\<close> to group action jobs and those of
  \<^verbatim>\<open>advanced_configuration\<close> to validation jobs, one job per entry in the order of the
  lists; id, bit id, action and sun location are the entry's, and a null or empty offset is 0.
  A document is valid when its coordinates parse and every entry is an object with the fields,
  a recognized token as sun location (and as action) and an offset that is null, empty or a
  value \<^verbatim>\<open>int(...)\<close> converts, which a literal of more than 4300 digits is not.
\<close>

theorem migrate_configuration_v2_v3_lists:
  assumes "valid_lists d c gjobs vjobs"
  shows "(determine_configuration_version d = Inr V2_0 \<longrightarrow>
            migrate_configuration_v2 d =
              Inr \<lparr>coordinates = Some c, group_action_jobs = gjobs, validation_jobs = vjobs,
                   version = V3_0\<rparr>) \<and>
         (determine_configuration_version d = Inr V3_0 \<longrightarrow>
            migrate_configuration_v3 d =
              Inr \<lparr>coordinates = Some c, group_action_jobs = gjobs, validation_jobs = vjobs,
                   version = V3_0\<rparr>)"
  using migrate_lists_valid[OF assms]
  by (simp add: migrate_configuration_v2_def migrate_configuration_v3_def)


lemma valid_lists_example_v2:
  "valid_lists example_v2 \<lparr>latitude = 1071351 / 25000, longitude = 13896781 / 1000000\<rparr>
     example_lists_group_action_jobs example_lists_validation_jobs"
  unfolding valid_lists_def
  by (simp add: example_v2_def example_lists_group_action_jobs_def
        example_lists_validation_jobs_def basic_entry_def advanced_entry_def offset_of_def
        token_member_def token_action_def config_eval)

lemma valid_lists_example_v3:
  "valid_lists example_v3 \<lparr>latitude = 1071351 / 25000, longitude = 13896781 / 1000000\<rparr>
     example_lists_group_action_jobs example_lists_validation_jobs"
  unfolding valid_lists_def
  by (simp add: example_v3_def example_v2_def example_lists_group_action_jobs_def
        example_lists_validation_jobs_def basic_entry_def advanced_entry_def offset_of_def
        token_member_def token_action_def config_eval)

text \<open>The theorem at the test's document, untagged (detected as 2.0) and tagged 3.0.\<close>

theorem migrate_configuration_v2_v3_lists_witness:
  "determine_configuration_version example_v2 = Inr V2_0 \<and>
   migrate_configuration_v2 example_v2 =
     Inr \<lparr>coordinates = Some \<lparr>latitude = 1071351 / 25000, longitude = 13896781 / 1000000\<rparr>,
          group_action_jobs =
            [\<lparr>group_action_id = PInt 3, ga_sun_location = Member SUNSET, ga_offset = PInt 30\<rparr>,
             \<lparr>group_action_id = PInt 5, ga_sun_location = Member SUNRISE,
              ga_offset = PInt (- 90)\<rparr>],
          validation_jobs =
            [\<lparr>action = CLEAR, bit_id = PInt 4, vj_sun_location = Member CIVIL_DUSK,
              vj_offset = PInt 0\<rparr>],
          version = V3_0\<rparr> \<and>
   determine_configuration_version example_v3 = Inr V3_0 \<and>
   migrate_configuration_v3 example_v3 =
     Inr \<lparr>coordinates = Some \<lparr>latitude = 1071351 / 25000, longitude = 13896781 / 1000000\<rparr>,
          group_action_jobs =
            [\<lparr>group_action_id = PInt 3, ga_sun_location = Member SUNSET, ga_offset = PInt 30\<rparr>,
             \<lparr>group_action_id = PInt 5, ga_sun_location = Member SUNRISE,
              ga_offset = PInt (- 90)\<rparr>],
          validation_jobs =
            [\<lparr>action = CLEAR, bit_id = PInt 4, vj_sun_location = Member CIVIL_DUSK,
              vj_offset = PInt 0\<rparr>],
          version = V3_0\<rparr>"
proof -
  have 2: "determine_configuration_version example_v2 = Inr V2_0"
    by (simp add: example_v2_def determine_configuration_version_def)
  have 3: "determine_configuration_version example_v3 = Inr V3_0"
    by (simp add: example_v3_def determine_configuration_version_def ConfigurationVersion_of_def
          enum_call_def)
  from 2 3 migrate_configuration_v2_v3_lists[OF valid_lists_example_v2]
    migrate_configuration_v2_v3_lists[OF valid_lists_example_v3]
  show ?thesis
    by (simp add: example_lists_group_action_jobs_def example_lists_validation_jobs_def)
qed

subsection \<open>Claim C3\<close>
























section \<open>The plan builder\<close>

lemma fire_time_Inr: "fire_time date off = Inr t \<Longrightarrow> t = date + minutes off"
  by (auto simp: fire_time_def timedelta_minutes_def datetime_plus_def split: if_splits)

lemma grouped_Nil: "grouped [] plan = plan"
  by (simp add: grouped_def)

lemma grouped_Cons: "grouped (a # ps) plan = grouped ps (setdefault_append plan (fst a) (snd a))"
  by (simp add: grouped_def)

lemma grouped_append: "grouped (ps @ qs) plan = grouped qs (grouped ps plan)"
  by (simp add: grouped_def)

lemma plan_actions_grouped:
  "plan_actions date now acts plan = Inr plan' \<Longrightarrow> plan' = grouped (surviving date now acts) plan"
proof (induction acts arbitrary: plan)
  case Nil
  then show ?case by (simp add: surviving_def grouped_Nil)
next
  case (Cons a acts)
  obtain off e where a: "a = (off, e)" by (cases a)
  from Cons.prems obtain t where t: "fire_time date off = Inr t"
    unfolding a by (cases "fire_time date off") auto
  then have t': "t = date + minutes off" by (rule fire_time_Inr)
  show ?case
  proof (cases "t < now")
    case True
    with Cons.prems t have "plan_actions date now acts plan = Inr plan'" unfolding a by simp
    from Cons.IH[OF this] True t' show ?thesis
      unfolding a by (simp add: surviving_def)
  next
    case False
    with Cons.prems t have "plan_actions date now acts (setdefault_append plan t e) = Inr plan'"
      unfolding a by simp
    from Cons.IH[OF this] False t' show ?thesis
      unfolding a by (simp add: surviving_def grouped_Cons)
  qed
qed

lemma plan_locations_grouped:
  "plan_locations parse now data gas bs order plan = Inr plan' \<Longrightarrow>
   plan' = grouped (concat (map (contribution parse now data gas bs) order)) plan"
proof (induction order arbitrary: plan)
  case Nil
  then show ?case by (simp add: grouped_Nil)
next
  case (Cons k order)
  show ?case
  proof (cases "get_list gas k = [] \<and> get_list bs k = []")
    case True
    then have c: "contribution parse now data gas bs k = []"
      by (simp add: contribution_def surviving_def bit_actions_def automation_actions_def
            split: option.splits)
    from True Cons.prems have "plan_locations parse now data gas bs order plan = Inr plan'"
      by simp
    from Cons.IH[OF this] c show ?thesis by simp
  next
    case False
    then have neg: "(get_list gas k = [] \<and> get_list bs k = []) = False" by simp
    have step: "plan_locations parse now data gas bs (k # order) plan =
        and_then (results_get data (field_of k)) (\<lambda>dt_string.
          case convert parse dt_string of
            None \<Rightarrow> plan_locations parse now data gas bs order plan
          | Some date \<Rightarrow>
              and_then (plan_actions date now (bit_actions k (get_list bs k)) plan) (\<lambda>plan1.
              and_then (plan_actions date now (automation_actions k (get_list gas k)) plan1)
                (\<lambda>plan2. plan_locations parse now data gas bs order plan2)))"
      by (simp only: plan_locations.simps neg if_False)
    note prems = Cons.prems[unfolded step]
    from prems obtain v where v: "results_get data (field_of k) = Inr v"
      by (cases "results_get data (field_of k)") auto
    show ?thesis
    proof (cases "convert parse v")
      case None
      then have c: "contribution parse now data gas bs k = []"
        using v by (simp add: contribution_def event_time_def)
      from prems v None
      have "plan_locations parse now data gas bs order plan = Inr plan'" by simp
      from Cons.IH[OF this] c show ?thesis by simp
    next
      case (Some date)
      from prems v Some obtain plan1 where
        p1: "plan_actions date now (bit_actions k (get_list bs k)) plan = Inr plan1"
        by (cases "plan_actions date now (bit_actions k (get_list bs k)) plan") auto
      from prems v Some p1 obtain plan2 where
        p2: "plan_actions date now (automation_actions k (get_list gas k)) plan1 = Inr plan2"
        by (cases "plan_actions date now (automation_actions k (get_list gas k)) plan1") auto
      from prems v Some p1 p2
      have rest: "plan_locations parse now data gas bs order plan2 = Inr plan'" by simp
      have c: "contribution parse now data gas bs k =
                 surviving date now (bit_actions k (get_list bs k)) @
                 surviving date now (automation_actions k (get_list gas k))"
        using v Some by (simp add: contribution_def event_time_def)
      have "plan2 = grouped (contribution parse now data gas bs k) plan"
        using plan_actions_grouped[OF p1] plan_actions_grouped[OF p2]
        by (simp add: c grouped_append)
      with Cons.IH[OF rest] show ?thesis by (simp add: grouped_append)
    qed
  qed
qed

lemma map_of_setdefault_append:
  "map_of (setdefault_append plan k v) k' =
     (if k' = k then Some (get_list plan k @ [v]) else map_of plan k')"
  by (induction plan) (auto simp: get_list_def)

lemma keys_setdefault_append:
  "fst ` set (setdefault_append plan k v) = insert k (fst ` set plan)"
proof (induction plan)
  case Nil
  then show ?case by simp
next
  case (Cons p plan)
  obtain k' vs where p: "p = (k', vs)" by (cases p)
  show ?case
  proof (cases "k' = k")
    case True
    then show ?thesis unfolding p by simp
  next
    case False
    then show ?thesis unfolding p using Cons.IH by simp blast
  qed
qed

lemma distinct_setdefault_append:
  "distinct (map fst plan) \<Longrightarrow> distinct (map fst (setdefault_append plan k v))"
proof (induction plan)
  case Nil
  then show ?case by simp
next
  case (Cons p plan)
  show ?case
  proof (cases "fst p = k")
    case True
    with Cons.prems show ?thesis by (cases p) auto
  next
    case False
    with Cons show ?thesis by (cases p) (auto simp: keys_setdefault_append)
  qed
qed

lemma distinct_grouped:
  "distinct (map fst plan) \<Longrightarrow> distinct (map fst (grouped ps plan))"
  by (induction ps arbitrary: plan) (simp_all add: grouped_Nil grouped_Cons distinct_setdefault_append)

lemma get_list_setdefault_append:
  "get_list (setdefault_append plan k v) k' =
     (if k' = k then get_list plan k @ [v] else get_list plan k')"
  by (simp add: get_list_def map_of_setdefault_append)

lemma get_list_Nil: "get_list [] k = []"
  by (simp add: get_list_def)

lemma get_list_grouped:
  "get_list (grouped ps plan) t = get_list plan t @ entries_at t ps"
proof (induction ps arbitrary: plan)
  case Nil
  then show ?case by (simp add: grouped_Nil entries_at_def)
next
  case (Cons a ps)
  show ?case
    by (simp add: grouped_Cons Cons.IH get_list_setdefault_append entries_at_def)
qed

lemma nonempty_setdefault_append:
  "list_all (\<lambda>p. snd p \<noteq> []) plan \<Longrightarrow> list_all (\<lambda>p. snd p \<noteq> []) (setdefault_append plan k v)"
  by (induction plan) auto

lemma nonempty_grouped:
  "list_all (\<lambda>p. snd p \<noteq> []) plan \<Longrightarrow> list_all (\<lambda>p. snd p \<noteq> []) (grouped ps plan)"
  by (induction ps arbitrary: plan) (simp_all add: grouped_Nil grouped_Cons nonempty_setdefault_append)

lemma in_grouped:
  assumes "(t, es) \<in> set (grouped ps [])"
  shows "es = entries_at t ps \<and> es \<noteq> []"
proof -
  have d: "distinct (map fst (grouped ps []))" by (simp add: distinct_grouped)
  then have "map_of (grouped ps []) t = Some es" using assms by simp
  then have "get_list (grouped ps []) t = es" by (simp add: get_list_def)
  then have 1: "es = entries_at t ps" by (simp add: get_list_grouped get_list_Nil)
  have "list_all (\<lambda>p. snd p \<noteq> []) (grouped ps [])" by (simp add: nonempty_grouped)
  with assms have "es \<noteq> []" by (auto simp: list_all_iff)
  with 1 show ?thesis by simp
qed

lemma at_grouped:
  assumes "entries_at t ps \<noteq> []"
  shows "(t, entries_at t ps) \<in> set (grouped ps [])"
proof -
  have "get_list (grouped ps []) t = entries_at t ps"
    by (simp add: get_list_grouped get_list_Nil)
  with assms have "map_of (grouped ps []) t = Some (entries_at t ps)"
    by (cases "map_of (grouped ps []) t") (auto simp: get_list_def)
  then show ?thesis by (rule map_of_SomeD)
qed



lemma in_entries_at: "e \<in> set (entries_at t ps) \<longleftrightarrow> (t, e) \<in> set ps"
  by (auto simp: entries_at_def image_iff)

lemma in_surviving:
  "(t, e) \<in> set (surviving date now acts) \<longleftrightarrow>
     (\<exists>off. (off, e) \<in> set acts \<and> t = date + minutes off \<and> now \<le> t)"
  by (auto simp: surviving_def image_iff)

lemma in_contribution:
  "(t, e) \<in> set (contribution parse now data gas bs k) \<longleftrightarrow>
     (\<exists>date off. event_time parse data k = Some date \<and> (off, e) \<in> set (location_actions gas bs k) \<and>
        t = date + minutes off \<and> now \<le> t)"
proof (cases "event_time parse data k")
  case None
  then show ?thesis by (simp add: contribution_def)
next
  case (Some date)
  have "(t, e) \<in> set (contribution parse now data gas bs k) \<longleftrightarrow>
        (\<exists>off. (off, e) \<in> set (location_actions gas bs k) \<and> t = date + minutes off \<and> now \<le> t)"
    unfolding contribution_def location_actions_def Some
    by (simp add: in_surviving) blast
  with Some show ?thesis by simp
qed

lemma location_actions_source:
  "(off, e) \<in> set (location_actions gas bs k) \<Longrightarrow> source_location e = k \<and> source_offset e = off"
  by (auto simp: location_actions_def bit_actions_def automation_actions_def)




lemma fire_time_cases: "fire_time date off = Inl OverflowError \<or> (\<exists>t. fire_time date off = Inr t)"
  by (auto simp: fire_time_def timedelta_minutes_def datetime_plus_def)

lemma plan_actions_total:
  "list_all (\<lambda>a. fire_time date (fst a) \<noteq> Inl OverflowError) acts \<Longrightarrow>
   \<exists>plan'. plan_actions date now acts plan = Inr plan'"
proof (induction acts arbitrary: plan)
  case Nil
  then show ?case by simp
next
  case (Cons a acts)
  obtain off e where a: "a = (off, e)" by (cases a)
  from Cons.prems fire_time_cases[of date off] obtain t where t: "fire_time date off = Inr t"
    unfolding a by auto
  from Cons.prems have "list_all (\<lambda>a. fire_time date (fst a) \<noteq> Inl OverflowError) acts" by simp
  from Cons.IH[OF this] t show ?case unfolding a by simp
qed

lemma plan_locations_total:
  assumes "plannable parse data gas bs order"
  shows "\<exists>plan'. plan_locations parse now data gas bs order plan = Inr plan'"
proof -
  from assms obtain r where r: "subscript data ''results'' = Inr (PDict r)"
    unfolding plannable_def by blast
  have g: "results_get data f = Inr (dict_get r f PNone)" for f
    by (simp add: results_get_def r)
  from assms have
    "list_all (\<lambda>k. case event_time parse data k of
                      None \<Rightarrow> True
                    | Some date \<Rightarrow>
                        list_all (\<lambda>a. fire_time date (fst a) \<noteq> Inl OverflowError)
                          (location_actions gas bs k)) order"
    unfolding plannable_def by blast
  then show ?thesis
  proof (induction order arbitrary: plan)
    case Nil
    then show ?case by simp
  next
    case (Cons k order)
    then have rest: "\<exists>plan'. plan_locations parse now data gas bs order p = Inr plan'" for p
      by simp
    show ?case
    proof (cases "convert parse (dict_get r (field_of k) PNone)")
      case None
      with rest[of plan] show ?thesis by (simp add: g)
    next
      case (Some date)
      then have "event_time parse data k = Some date" by (simp add: event_time_def g)
      with Cons.prems have
        b: "list_all (\<lambda>a. fire_time date (fst a) \<noteq> Inl OverflowError) (bit_actions k (get_list bs k))" and
        a: "list_all (\<lambda>a. fire_time date (fst a) \<noteq> Inl OverflowError)
              (automation_actions k (get_list gas k))"
        by (simp_all add: location_actions_def)
      from plan_actions_total[OF b] obtain p1 where
        p1: "plan_actions date now (bit_actions k (get_list bs k)) plan = Inr p1" by blast
      from plan_actions_total[OF a] obtain p2 where
        p2: "plan_actions date now (automation_actions k (get_list gas k)) p1 = Inr p2" by blast
      from rest[of plan] rest[of p2] show ?thesis by (simp add: g Some p1 p2)
    qed
  qed
qed

lemma plan_entry_not_past:
  assumes p: "plan_locations parse now data gas bs order [] = Inr plan" and m: "(t, es) \<in> set plan"
  shows "now \<le> t \<and>
         (\<forall>e \<in> set es. \<exists>date. event_time parse data (source_location e) = Some date \<and>
                           t = date + minutes (source_offset e))"
proof -
  let ?ps = "concat (map (contribution parse now data gas bs) order)"
  from plan_locations_grouped[OF p] have g: "plan = grouped ?ps []" .
  from in_grouped[OF m[unfolded g]] have es: "es = entries_at t ?ps" "es \<noteq> []" by blast+
  have every: "\<exists>date. event_time parse data (source_location e) = Some date \<and>
                 t = date + minutes (source_offset e) \<and> now \<le> t" if "e \<in> set es" for e
  proof -
    from that es have "(t, e) \<in> set ?ps" by (simp add: in_entries_at)
    then obtain k where "(t, e) \<in> set (contribution parse now data gas bs k)" by auto
    then obtain date off where
      "event_time parse data k = Some date" "(off, e) \<in> set (location_actions gas bs k)"
      "t = date + minutes off" "now \<le> t"
      unfolding in_contribution by blast
    with location_actions_source[of off e gas bs k] show ?thesis by auto
  qed
  from es(2) obtain e where "e \<in> set es" by (cases es) auto
  with every have "now \<le> t" by blast
  with every show ?thesis by blast
qed

lemma plan_keeps_survivor:
  assumes p: "plan_locations parse now data gas bs order [] = Inr plan"
    and a: "k \<in> set order" "event_time parse data k = Some date"
      "(off, e) \<in> set (location_actions gas bs k)" "now \<le> date + minutes off"
  shows "e \<in> set (get_list plan (date + minutes off))"
proof -
  let ?ps = "concat (map (contribution parse now data gas bs) order)"
  from plan_locations_grouped[OF p] have g: "plan = grouped ?ps []" .
  from a have "(date + minutes off, e) \<in> set (contribution parse now data gas bs k)"
    unfolding in_contribution by blast
  with a have "(date + minutes off, e) \<in> set ?ps" by auto
  then show ?thesis
    by (simp add: g get_list_grouped get_list_Nil in_entries_at)
qed

lemmas plan_eval =
  results_get_def field_of_def field_map_def convert_def year_1970_def days_def minutes_def
  seconds_def fire_time_def timedelta_minutes_def datetime_plus_def datetime_min_def
  datetime_max_def get_list_def bit_actions_def automation_actions_def subscript_def
  dict_get_def sample_strptime_def

lemma example_plan_built:
  "plan_locations sample_strptime example_now example_data example_group_actions example_bits
     example_order [] = Inr example_plan"
  by (simp add: example_data_def example_group_actions_def example_bits_def example_order_def
        example_now_def example_plan_def plan_eval)

lemma example_plannable:
  "plannable sample_strptime example_data example_group_actions example_bits example_order"
  by (simp add: plannable_def event_time_def location_actions_def example_data_def
        example_group_actions_def example_bits_def example_order_def plan_eval)


subsection \<open>Claim C4\<close>

text \<open>
  C4. For every \<open>now\<close>, every response, every index and every iteration order: where the
  builder raises nothing it returns a plan, and in every plan it returns each fire time is not
  before \<open>now\<close>, and each entry under it is an action of a location that has an event time,
  filed under that time plus the action's offset in minutes. So a location without event time
  (no field, or the year-1970 date) has no entry. Conversely every action of such a location whose
  fire time is not before \<open>now\<close> is in the plan under its fire time: an action that is over
  is dropped alone.
\<close>

theorem plan_has_no_past_entry:
  "(plannable parse data gas bs order \<longrightarrow>
      (\<exists>plan. plan_locations parse now data gas bs order [] = Inr plan)) \<and>
   (\<forall>plan. plan_locations parse now data gas bs order [] = Inr plan \<longrightarrow>
      (\<forall>t es. (t, es) \<in> set plan \<longrightarrow>
         now \<le> t \<and>
         (\<forall>e \<in> set es. \<exists>date. event_time parse data (source_location e) = Some date \<and>
                           t = date + minutes (source_offset e))) \<and>
      (\<forall>k date off e. k \<in> set order \<and> event_time parse data k = Some date \<and>
         (off, e) \<in> set (location_actions gas bs k) \<and> now \<le> date + minutes off \<longrightarrow>
         e \<in> set (get_list plan (date + minutes off))))"
proof -
  have 1: "plannable parse data gas bs order \<longrightarrow>
             (\<exists>plan. plan_locations parse now data gas bs order [] = Inr plan)"
    using plan_locations_total by blast
  have 2: "\<forall>t es. (t, es) \<in> set plan \<longrightarrow>
         now \<le> t \<and>
         (\<forall>e \<in> set es. \<exists>date. event_time parse data (source_location e) = Some date \<and>
                           t = date + minutes (source_offset e))"
    if "plan_locations parse now data gas bs order [] = Inr plan" for plan
    using plan_entry_not_past[OF that] by blast
  have 3: "\<forall>k date off e. k \<in> set order \<and> event_time parse data k = Some date \<and>
         (off, e) \<in> set (location_actions gas bs k) \<and> now \<le> date + minutes off \<longrightarrow>
         e \<in> set (get_list plan (date + minutes off))"
    if "plan_locations parse now data gas bs order [] = Inr plan" for plan
    using plan_keeps_survivor[OF that] by blast
  from 1 2 3 show ?thesis by blast
qed


text \<open>
  The theorem at the example: sunrise + 60 min and sunset are planned, sunrise - 600 min is over,
  solar noon has the 1970 date.
\<close>

theorem plan_has_no_past_entry_witness:
  "plannable sample_strptime example_data example_group_actions example_bits example_order \<and>
   plan_locations sample_strptime example_now example_data example_group_actions example_bits
     example_order [] = Inr example_plan \<and>
   example_now \<le> 1717216405000000 \<and>
   example_now \<le> 1717271287000000 \<and>
   \<lparr>task = Group_action_task 3, source_location = Str_key ''sunrise'', source_offset = 60\<rparr>
     \<in> set (get_list example_plan (1717212805000000 + minutes 60)) \<and>
   event_time sample_strptime example_data (Str_key ''solar noon'') = None"
proof -
  note T = plan_has_no_past_entry[of sample_strptime example_data example_group_actions
      example_bits example_order example_now]
  from T example_plan_built have
    a: "\<forall>t es. (t, es) \<in> set example_plan \<longrightarrow> example_now \<le> t" by blast
  have "(1717216405000000,
         [\<lparr>task = Group_action_task 3, source_location = Str_key ''sunrise'',
           source_offset = 60\<rparr>]) \<in> set example_plan"
    by (simp add: example_plan_def)
  with a have 1: "example_now \<le> 1717216405000000" by blast
  have "(1717271287000000,
         [\<lparr>task = Group_action_task 4, source_location = Str_key ''sunset'',
           source_offset = 0\<rparr>]) \<in> set example_plan"
    by (simp add: example_plan_def)
  with a have 2: "example_now \<le> 1717271287000000" by blast
  have k: "Str_key ''sunrise'' \<in> set example_order" by (simp add: example_order_def)
  have e: "event_time sample_strptime example_data (Str_key ''sunrise'') = Some 1717212805000000"
    by (simp add: event_time_def example_data_def plan_eval)
  have l: "(60, \<lparr>task = Group_action_task 3, source_location = Str_key ''sunrise'',
                 source_offset = 60\<rparr>)
             \<in> set (location_actions example_group_actions example_bits (Str_key ''sunrise''))"
    by (simp add: location_actions_def example_group_actions_def example_bits_def plan_eval)
  have n: "example_now \<le> 1717212805000000 + minutes 60"
    by (simp add: example_now_def minutes_def)
  from T example_plan_built k e l n have
    3: "\<lparr>task = Group_action_task 3, source_location = Str_key ''sunrise'', source_offset = 60\<rparr>
          \<in> set (get_list example_plan (1717212805000000 + minutes 60))"
    by blast
  have 4: "event_time sample_strptime example_data (Str_key ''solar noon'') = None"
    by (simp add: event_time_def example_data_def plan_eval)
  from example_plannable example_plan_built 1 2 3 4 show ?thesis by blast
qed


subsection \<open>The keys of the index\<close>







lemma bit_entries_at_kind:
  "e \<in> set (bit_entries_at parse now data bs t k) \<Longrightarrow> is_bit_entry e"
  by (auto simp: bit_entries_at_def bit_actions_def is_bit_entry_def split: option.splits)





subsection \<open>Claim C5\<close>




section \<open>The scheduler\<close>

subsection \<open>Attempts that fail\<close>

lemma fetch_fails_attempt_fails: "fetch_fails r \<Longrightarrow> attempt_fails env now s r"
  by (auto simp: fetch_fails_def attempt_fails_def attempt_def
      split: response.splits option.splits sum.splits)

lemma attempt_fails_state:
  "group_actions s' = group_actions s \<Longrightarrow> bits s' = bits s \<Longrightarrow>
   attempt_fails env now s' r = attempt_fails env now s r"
  by (simp add: attempt_fails_def attempt_def
      cong: if_cong response.case_cong option.case_cong)

lemma attempt_fails_Inl: "attempt_fails env now s r \<Longrightarrow> \<exists>e. attempt env now s r = Inl e"
  by (simp add: attempt_fails_def split: sum.splits)

lemma request_time_Suc:
  "request_time env first (Suc n) =
     int (fst (http_get env first)) + request_time env (Suc first) n"
proof -
  have "map (\<lambda>i. fst (http_get env (first + i))) [0..<Suc n] =
        fst (http_get env first) # map (\<lambda>i. fst (http_get env (Suc first + i))) [0..<n]"
    by (simp add: upt_conv_Cons map_Suc_upt[symmetric] del: upt_Suc)
  then show ?thesis by (simp add: request_time_def)
qed

lemma build_attempts_all_fail:
  assumes "\<forall>i<n. attempt_fails env now s (snd (http_get env (requests_made s + i)))"
  shows "build_attempts n env now s =
           s\<lparr>requests_made := requests_made s + n,
             clock := clock s + request_time env (requests_made s) n + seconds 5 * int n,
             execution_plan := (if n = 0 then execution_plan s else [])\<rparr>"
  using assms
proof (induction n arbitrary: s)
  case 0
  then show ?case by (simp add: request_time_def)
next
  case (Suc n)
  let ?r = "http_get env (requests_made s)"
  let ?s1 = "s\<lparr>requests_made := Suc (requests_made s), clock := clock s + int (fst ?r)\<rparr>"
  let ?s2 = "?s1\<lparr>execution_plan := [], clock := clock ?s1 + seconds 5\<rparr>"
  have s1: "attempt_fails env now ?s1 r = attempt_fails env now s r" for r
    by (rule attempt_fails_state) simp_all
  have s2: "attempt_fails env now ?s2 r = attempt_fails env now s r" for r
    by (rule attempt_fails_state) simp_all
  from Suc.prems have "attempt_fails env now s (snd (http_get env (requests_made s + 0)))"
    by blast
  then have "attempt_fails env now ?s1 (snd ?r)"
    by (simp only: s1 add_0_right)
  from attempt_fails_Inl[OF this] obtain e where e: "attempt env now ?s1 (snd ?r) = Inl e"
    by blast
  have step: "build_attempts (Suc n) env now s = build_attempts n env now ?s2"
    by (simp add: Let_def e)
  have "\<forall>i<n. attempt_fails env now ?s2 (snd (http_get env (requests_made ?s2 + i)))"
  proof (intro allI impI)
    fix i assume "i < n"
    then have "Suc i < Suc n" by simp
    with Suc.prems have "attempt_fails env now s (snd (http_get env (requests_made s + Suc i)))"
      by blast
    then have "attempt_fails env now ?s2 (snd (http_get env (requests_made s + Suc i)))"
      by (simp only: s2)
    then show "attempt_fails env now ?s2 (snd (http_get env (requests_made ?s2 + i)))"
      by simp
  qed
  from Suc.IH[OF this] show ?case
    unfolding step by (simp add: request_time_Suc seconds_def algebra_simps)
qed

lemma build_attempts_requests:
  "requests_made (build_attempts n env now s) \<le> requests_made s + n"
proof (induction n arbitrary: s)
  case 0
  then show ?case by simp
next
  case (Suc n)
  let ?r = "http_get env (requests_made s)"
  let ?s1 = "s\<lparr>requests_made := Suc (requests_made s), clock := clock s + int (fst ?r)\<rparr>"
  show ?case
  proof (cases "attempt env now ?s1 (snd ?r)")
    case (Inr plan)
    then show ?thesis by (simp add: Let_def)
  next
    case (Inl e)
    let ?s2 = "?s1\<lparr>execution_plan := [], clock := clock ?s1 + seconds 5\<rparr>"
    from Inl have "build_attempts (Suc n) env now s = build_attempts n env now ?s2"
      by (simp add: Let_def)
    with Suc.IH[of ?s2] show ?thesis by simp
  qed
qed

lemma failing_http_get_fails:
  "attempt_fails failing_environment now example_astro (snd (http_get failing_environment n))"
  by (simp add: attempt_fails_def attempt_def failing_environment_def failing_http_get_def
        example_astro_def example_order_def example_bits_def example_group_actions_def
        plan_eval)

lemma failing_request_time: "request_time failing_environment first n = 0"
  by (simp add: request_time_def failing_environment_def failing_http_get_def)


subsection \<open>Claim C6\<close>

text \<open>
  C6. The plan-building call makes at most five requests, whatever the responses, and it
  returns a state: every exception of an attempt is caught. When all five attempts fail it has
  made exactly five requests, the plan is empty, and the clock has advanced by the time of the
  five requests and by five pauses of five seconds, one after every failed attempt, the last
  one included. An enabled scheduler that has not yet asked today and whose five attempts
  fail leaves the plan empty and sets its wake to the time after the attempts plus the span from
  the \<open>now\<close> taken before them to tomorrow, plus five seconds: that is tomorrow plus thirty
  seconds plus the time of the five requests.
\<close>

theorem fetch_failure_empties_plan:
  "requests_made (build_execution_plan env now s) \<le> requests_made s + 5 \<and>
   ((\<forall>i<5. attempt_fails env now s (snd (http_get env (requests_made s + i)))) \<longrightarrow>
      build_execution_plan env now s =
        s\<lparr>requests_made := requests_made s + 5,
          clock := clock s + request_time env (requests_made s) 5 + seconds 25,
          execution_plan := []\<rparr>) \<and>
   (enabled s \<and> Some today \<noteq> last_request_date s \<and>
    (\<forall>i<5. attempt_fails env (clock s) s (snd (http_get env (requests_made s + i)))) \<longrightarrow>
      run_iteration env today tomorrow s =
        s\<lparr>last_request_date := Some today,
          requests_made := requests_made s + 5,
          clock := clock s + request_time env (requests_made s) 5 + seconds 25,
          execution_plan := [],
          sleep_until := tomorrow + seconds 30 + request_time env (requests_made s) 5\<rparr>)"
proof (intro conjI impI)
  show "requests_made (build_execution_plan env now s) \<le> requests_made s + 5"
    unfolding build_execution_plan_def by (rule build_attempts_requests)
next
  assume "\<forall>i<5. attempt_fails env now s (snd (http_get env (requests_made s + i)))"
  from build_attempts_all_fail[OF this]
  show "build_execution_plan env now s =
        s\<lparr>requests_made := requests_made s + 5,
          clock := clock s + request_time env (requests_made s) 5 + seconds 25,
          execution_plan := []\<rparr>"
    by (simp add: build_execution_plan_def seconds_def)
next
  assume a: "enabled s \<and> Some today \<noteq> last_request_date s \<and>
             (\<forall>i<5. attempt_fails env (clock s) s (snd (http_get env (requests_made s + i))))"
  let ?s0 = "s\<lparr>last_request_date := Some today\<rparr>"
  have s0: "attempt_fails env (clock s) ?s0 r = attempt_fails env (clock s) s r" for r
    by (rule attempt_fails_state) simp_all
  from a have "\<forall>i<5. attempt_fails env (clock s) ?s0
                       (snd (http_get env (requests_made ?s0 + i)))"
    by (simp add: s0)
  from build_attempts_all_fail[OF this]
  have b: "build_execution_plan env (clock s) ?s0 =
        ?s0\<lparr>requests_made := requests_made s + 5,
          clock := clock s + request_time env (requests_made s) 5 + seconds 25,
          execution_plan := []\<rparr>"
    by (simp add: build_execution_plan_def seconds_def)
  show "run_iteration env today tomorrow s =
        s\<lparr>last_request_date := Some today,
          requests_made := requests_made s + 5,
          clock := clock s + request_time env (requests_made s) 5 + seconds 25,
          execution_plan := [],
          sleep_until := tomorrow + seconds 30 + request_time env (requests_made s) 5\<rparr>"
    using a by (simp add: run_iteration_def Let_def b seconds_def)
qed

text \<open>
  The theorem at the five failing requests of the example: the call returns with an empty plan
  after five requests and twenty-five seconds, and the wake is thirty seconds after tomorrow.
\<close>

theorem fetch_failure_empties_plan_witness:
  "requests_made (build_execution_plan failing_environment 1717200060000000 example_astro) \<le> 5 \<and>
   build_execution_plan failing_environment 1717200060000000 example_astro =
     example_astro\<lparr>requests_made := 5, clock := 1717200085000000, execution_plan := []\<rparr> \<and>
   run_iteration failing_environment example_today example_tomorrow example_astro =
     example_astro\<lparr>last_request_date := Some example_today, requests_made := 5,
       clock := 1717200085000000, execution_plan := [], sleep_until := 1717286430000000\<rparr>"
proof -
  have c: "clock example_astro = 1717200060000000" "requests_made example_astro = 0"
    "enabled example_astro" "last_request_date example_astro = None"
    by (simp_all add: example_astro_def)
  note T = fetch_failure_empties_plan[of failing_environment 1717200060000000 example_astro
      example_today example_tomorrow]
  show ?thesis
    using T
    by (simp add: c failing_http_get_fails failing_request_time seconds_def
          example_tomorrow_def)
qed

text \<open>
  The wake after five failed attempts is not tomorrow plus five seconds: with requests that
  take no time at all it is tomorrow plus thirty seconds, the five pauses having passed between
  the \<open>now\<close> the span to tomorrow is counted from and the time the span is added to.
\<close>

theorem fetch_failure_wake_counterexample:
  "execution_plan
     (run_iteration failing_environment example_today example_tomorrow example_astro) = [] \<and>
   sleep_until
     (run_iteration failing_environment example_today example_tomorrow example_astro) =
     example_tomorrow + seconds 30 \<and>
   sleep_until
     (run_iteration failing_environment example_today example_tomorrow example_astro) \<noteq>
     example_tomorrow + seconds 5"
proof -
  have c: "clock example_astro = 1717200060000000" "requests_made example_astro = 0"
    "enabled example_astro" "last_request_date example_astro = None"
    by (simp_all add: example_astro_def)
  let ?s0 = "example_astro\<lparr>last_request_date := Some example_today\<rparr>"
  have s0: "attempt_fails failing_environment 1717200060000000 ?s0 r =
            attempt_fails failing_environment 1717200060000000 example_astro r" for r
    by (rule attempt_fails_state) simp_all
  have "\<forall>i<5. attempt_fails failing_environment 1717200060000000 ?s0
                 (snd (http_get failing_environment (requests_made ?s0 + i)))"
    by (simp add: s0 failing_http_get_fails)
  from build_attempts_all_fail[OF this]
  have b: "build_execution_plan failing_environment 1717200060000000 ?s0 =
             ?s0\<lparr>requests_made := 5, clock := 1717200085000000, execution_plan := []\<rparr>"
    by (simp add: build_execution_plan_def c failing_request_time seconds_def)
  show ?thesis
    by (simp add: run_iteration_def Let_def c b seconds_def example_tomorrow_def)
qed


subsection \<open>The scan\<close>

lemma get_list_filter_other:
  "t \<noteq> date \<Longrightarrow> get_list (filter (\<lambda>p. fst p \<noteq> date) plan) t = get_list plan t"
  by (induction plan) (auto simp: get_list_def)

lemma get_list_distinct:
  "distinct (map fst plan) \<Longrightarrow> p \<in> set plan \<Longrightarrow> get_list plan (fst p) = snd p"
  by (cases p) (simp add: get_list_def)

lemma dispatch_scan_state:
  assumes "distinct keys"
  shows "snd (snd (dispatch_scan env now keys (nad, nd, s))) =
           s\<lparr>basic_actions :=
               basic_actions s @
               concat (map (\<lambda>t. map basic_action_of (get_list (execution_plan s) t))
                         (filter (near now) keys)),
             clock :=
               clock s +
               int (sum_list (map (\<lambda>t. sum_list (map (call_duration env)
                                                    (get_list (execution_plan s) t)))
                                (filter (near now) keys))),
             execution_plan :=
               filter (\<lambda>p. fst p \<notin> set (filter (near now) keys)) (execution_plan s)\<rparr>"
  using assms
proof (induction keys arbitrary: nad nd s)
  case Nil
  then show ?case by simp
next
  case (Cons date keys)
  then have d: "distinct keys" and nin: "date \<notin> set keys" by simp_all
  show ?case
  proof (cases "near now date")
    case False
    then have far: "\<bar>date - now\<bar> > minutes 5" by (simp add: near_def)
    show ?thesis
      using far False Cons.IH[OF d] by (simp add: Let_def)
  next
    case True
    then have nfar: "\<not> \<bar>date - now\<bar> > minutes 5" by (simp add: near_def)
    let ?plan = "get_list (execution_plan s) date"
    let ?s' = "s\<lparr>basic_actions := basic_actions s @ map basic_action_of ?plan,
                 clock := clock s + int (sum_list (map (call_duration env) ?plan)),
                 execution_plan := filter (\<lambda>p. fst p \<noteq> date) (execution_plan s)\<rparr>"
    have step: "dispatch_scan env now (date # keys) (nad, nd, s) =
                dispatch_scan env now keys (nad, nd, ?s')"
      using nfar by (simp add: Let_def)
    have g: "map (\<lambda>t. f (get_list (filter (\<lambda>p. fst p \<noteq> date) (execution_plan s)) t))
               (filter (near now) keys) =
             map (\<lambda>t. f (get_list (execution_plan s) t)) (filter (near now) keys)"
      for f :: "plan_entry list \<Rightarrow> 'x"
    proof (rule map_cong[OF refl])
      fix t assume "t \<in> set (filter (near now) keys)"
      with nin have "t \<noteq> date" by auto
      then show "f (get_list (filter (\<lambda>p. fst p \<noteq> date) (execution_plan s)) t) =
                 f (get_list (execution_plan s) t)"
        by (simp add: get_list_filter_other)
    qed
    have f: "filter (\<lambda>p. fst p \<notin> set (filter (near now) keys))
               (filter (\<lambda>p. fst p \<noteq> date) (execution_plan s)) =
             filter (\<lambda>p. fst p \<notin> set (filter (near now) (date # keys))) (execution_plan s)"
      using True by (auto intro: filter_cong)
    show ?thesis
      unfolding step Cons.IH[OF d]
      using True
      by (simp add: g[of "map basic_action_of"]
            g[of "\<lambda>l. sum_list (map (call_duration env) l)"] f algebra_simps)
  qed
qed

lemma dispatch_scan_scanned:
  assumes "distinct (map fst (execution_plan s))"
  shows "snd (snd (dispatch_scan env now (map fst (execution_plan s)) (nad, nd, s))) =
           scanned env now s"
proof -
  let ?plan = "execution_plan s"
  have a: "map (\<lambda>t. f (get_list ?plan t)) (filter (near now) (map fst ?plan)) =
           map (\<lambda>p. f (snd p)) (filter (\<lambda>p. near now (fst p)) ?plan)"
    for f :: "plan_entry list \<Rightarrow> 'x"
    using get_list_distinct[OF assms]
    by (simp add: filter_map comp_def)
  have b: "filter (\<lambda>p. fst p \<in> fst ` set ?plan \<longrightarrow> \<not> near now (fst p)) ?plan =
           filter (\<lambda>p. \<not> near now (fst p)) ?plan"
    by (rule filter_cong) auto
  show ?thesis
    unfolding dispatch_scan_state[OF assms] scanned_def
    by (simp add: a[of "map basic_action_of"]
          a[of "\<lambda>l. sum_list (map (call_duration env) l)"] b)
qed

lemma Min_insert_below:
  fixes d :: int
  assumes fin: "finite A" and sub: "B \<subseteq> A"
    and lt: "\<forall>t\<in>B. t < d" and ge: "\<forall>t\<in>A - B. d \<le> t"
  shows "(if B = {} then d else Min B) = Min (insert d A)"
proof (cases "B = {}")
  case True
  with ge have "\<forall>t\<in>A. d \<le> t" by simp
  then have "Min (insert d A) = d"
    using fin by (intro Min_eqI) auto
  with True show ?thesis by simp
next
  case False
  have finB: "finite B" using fin sub by (rule rev_finite_subset)
  have m: "Min B \<in> B" using finB False by (rule Min_in)
  have mlt: "Min B < d" using m lt by blast
  have "Min B \<le> t" if t: "t \<in> insert d A" for t
  proof (cases "t \<in> B")
    case True
    then show ?thesis using finB by (intro Min_le)
  next
    case False
    with t ge have "d \<le> t" by blast
    with mlt show ?thesis by simp
  qed
  moreover have "Min B \<in> insert d A" using m sub by blast
  ultimately have "Min (insert d A) = Min B"
    using fin by (intro Min_eqI) auto
  with False show ?thesis by simp
qed

lemma dispatch_scan_anchor:
  "fst (dispatch_scan env now keys (nad, nd, s)) =
     (if filter (ahead_within nd now) keys = [] then nad
      else Min (set (filter (ahead_within nd now) keys)))"
proof (induction keys arbitrary: nad nd s)
  case Nil
  then show ?case by simp
next
  case (Cons date keys)
  let ?delta = "\<bar>date - now\<bar>"
  show ?case
  proof (cases "?delta > minutes 5 \<and> date > now \<and> ?delta < nd")
    case False
    then have out: "\<not> ahead_within nd now date"
      by (auto simp: ahead_within_def)
    have "dispatch_scan env now (date # keys) (nad, nd, s) =
            dispatch_scan env now keys (nad, nd, s) \<or>
          (\<exists>s'. dispatch_scan env now (date # keys) (nad, nd, s) =
            dispatch_scan env now keys (nad, nd, s'))"
      using False by (auto simp: Let_def)
    then show ?thesis
      using out Cons.IH by auto
  next
    case True
    then have inn: "ahead_within nd now date" and d: "?delta = date - now"
      by (auto simp: ahead_within_def)
    let ?A = "set (filter (ahead_within nd now) keys)"
    let ?B = "set (filter (ahead_within (date - now) now) keys)"
    have step: "dispatch_scan env now (date # keys) (nad, nd, s) =
                dispatch_scan env now keys (date, date - now, s)"
      using True d by (simp add: Let_def)
    have sub: "?B \<subseteq> ?A" using True d by (auto simp: ahead_within_def)
    have lt: "\<forall>t\<in>?B. t < date" by (auto simp: ahead_within_def)
    have ge: "\<forall>t\<in>?A - ?B. date \<le> t" by (auto simp: ahead_within_def)
    have m: "(if ?B = {} then date else Min ?B) = Min (insert date ?A)"
      by (rule Min_insert_below[OF _ sub lt ge]) simp
    have e: "(filter (ahead_within (date - now) now) keys = []) = (?B = {})"
      by (simp only: set_empty)
    have i: "set (filter (ahead_within nd now) (date # keys)) = insert date ?A"
      using inn by simp
    have ne: "(filter (ahead_within nd now) (date # keys) = []) = False"
      using inn by simp
    show ?thesis
      by (simp only: step Cons.IH e m i ne if_False)
  qed
qed


subsection \<open>Claim C9\<close>

text \<open>
  C9. An enabled scheduler that wakes with a plan of today (a dictionary: no fire time twice)
  sends the entries of exactly the fire times at most five minutes from \<open>now\<close>, before or after,
  in the order of the plan, and removes these fire times; every other fire time, more than five
  minutes ahead or more than five minutes ago, stays in the plan with its entries, and none
  of its entries is sent. The wake is counted from the earliest fire time that is more than
  five minutes and less than two days ahead, and from tomorrow when there is none, so never
  from a fire time in the past: it is the time after the calls, plus the span from \<open>now\<close> to
  that date, plus five seconds.
\<close>

theorem run_dispatches_entries_near_now:
  assumes "enabled s"
    and "last_request_date s = Some today"
    and "execution_plan s \<noteq> []"
    and "distinct (map fst (execution_plan s))"
  shows "run_iteration env today tomorrow s =
           (scanned env (clock s) s)
             \<lparr>sleep_until :=
                clock (scanned env (clock s) s) +
                (next_wake_anchor (clock s) tomorrow (map fst (execution_plan s)) - clock s) +
                seconds 5\<rparr>"
proof -
  let ?keys = "map fst (execution_plan s)"
  let ?r = "dispatch_scan env (clock s) ?keys (tomorrow, days 2, s)"
  have st: "snd (snd ?r) = scanned env (clock s) s"
    by (rule dispatch_scan_scanned[OF assms(4)])
  have an: "fst ?r = next_wake_anchor (clock s) tomorrow ?keys"
    by (simp only: dispatch_scan_anchor next_wake_anchor_def)
  show ?thesis
    using assms(1-3) by (simp add: run_iteration_def Let_def st an)
qed

text \<open>
  The theorem at the plan of five fire times: the three entries of the fire times two minutes
  ago and in five minutes are sent, the fire times ten minutes ago, in three hours and in one
  hour stay, and the wake is counted from the fire time in one hour.
\<close>

theorem run_dispatches_entries_near_now_witness:
  "run_iteration calling_environment example_today example_tomorrow example_due_astro =
     example_due_astro
       \<lparr>basic_actions := [(237, 1), (2, 3), (238, 2)],
        clock := 1717200063000000,
        execution_plan :=
          [(1717199460000000,
            [\<lparr>task = Group_action_task 9, source_location = Str_key ''sunset'',
              source_offset = 0\<rparr>]),
           (1717210860000000,
            [\<lparr>task = Group_action_task 4, source_location = Str_key ''sunrise'',
              source_offset = 180\<rparr>]),
           (1717203660000000,
            [\<lparr>task = Group_action_task 5, source_location = Str_key ''sunrise'',
              source_offset = 60\<rparr>])],
        sleep_until := 1717203668000000\<rparr>"
proof -
  have c: "enabled example_due_astro" "last_request_date example_due_astro = Some example_today"
    "execution_plan example_due_astro = example_due_plan"
    "clock example_due_astro = 1717200060000000" "basic_actions example_due_astro = []"
    by (simp_all add: example_due_astro_def)
  have d: "example_due_plan \<noteq> []" "distinct (map fst example_due_plan)"
    by (simp_all add: example_due_plan_def)
  note T = run_dispatches_entries_near_now[of example_due_astro example_today
      calling_environment example_tomorrow]
  have a: "next_wake_anchor 1717200060000000 example_tomorrow (map fst example_due_plan) =
           1717203660000000"
    by (simp add: next_wake_anchor_def ahead_within_def example_due_plan_def minutes_def
          days_def)
  have s: "scanned calling_environment 1717200060000000 example_due_astro =
           example_due_astro
             \<lparr>basic_actions := [(237, 1), (2, 3), (238, 2)],
              clock := 1717200063000000,
              execution_plan :=
                [(1717199460000000,
                  [\<lparr>task = Group_action_task 9, source_location = Str_key ''sunset'',
                    source_offset = 0\<rparr>]),
                 (1717210860000000,
                  [\<lparr>task = Group_action_task 4, source_location = Str_key ''sunrise'',
                    source_offset = 180\<rparr>]),
                 (1717203660000000,
                  [\<lparr>task = Group_action_task 5, source_location = Str_key ''sunrise'',
                    source_offset = 60\<rparr>])]\<rparr>"
    by (simp add: scanned_def c near_def minutes_def example_due_plan_def basic_action_of_def
          calling_environment_def)
  show ?thesis
    using T by (simp add: c d a s seconds_def)
qed

text \<open>
  A fire time more than five minutes ahead is not always the date the wake is counted from:
  the only fire time of this plan, sunrise plus three days, stays in the plan, and the wake is
  tomorrow plus five seconds.
\<close>

theorem run_wake_far_entry_counterexample:
  "execution_plan
     (run_iteration failing_environment example_today example_tomorrow example_far_astro) =
     example_far_plan \<and>
   claimed_anchor (clock example_far_astro) example_tomorrow (map fst example_far_plan) =
     1717472005000000 \<and>
   sleep_until
     (run_iteration failing_environment example_today example_tomorrow example_far_astro) =
     example_tomorrow + seconds 5 \<and>
   example_tomorrow < 1717472005000000"
  by (simp add: run_iteration_def Let_def example_far_astro_def example_far_plan_def
        claimed_anchor_def minutes_def days_def seconds_def example_tomorrow_def)


end
